theory Spec2Isabelle
  imports
    Complex_Main
    "HOL-Library.FSet"
    "HOL-Library.Multiset"
    "HOL-Library.List_Lexorder"
    "HOL-Library.Char_ord"
    "HOL-Library.Log_Nat"
begin

section \<open>Python values and built-ins used by the validator and the scorer\<close>

text \<open>
  The fields typed \<open>Any\<close> in the source (tool-call arguments, expected parameter
  values, the \<open>expected\<close>/\<open>actual\<close> payload of a check) hold JSON-like Python
  values. They are modelled by \<open>pyval\<close>: \<open>None\<close>, booleans, unbounded integers,
  strings, lists and dictionaries (association lists in insertion order, keys distinct).
\<close>

datatype pyval =
    PNone
  | PBool bool
  | PInt int
  | PStr string
  | PList "pyval list"
  | PDict "(string \<times> pyval) list"

text \<open>Python's \<open>==\<close> on these values: \<open>bool\<close> is a subclass of \<open>int\<close>
  (\<open>True == 1\<close>), lists compare element-wise, dictionaries compare as maps.\<close>

fun py_eq :: "pyval \<Rightarrow> pyval \<Rightarrow> bool" where
  "py_eq PNone PNone = True"
| "py_eq (PBool a) (PBool b) = (a = b)"
| "py_eq (PBool a) (PInt j) = ((if a then 1 else 0) = j)"
| "py_eq (PInt i) (PBool b) = (i = (if b then 1 else 0))"
| "py_eq (PInt i) (PInt j) = (i = j)"
| "py_eq (PStr s) (PStr t) = (s = t)"
| "py_eq (PList xs) (PList ys) = list_all2 py_eq xs ys"
| "py_eq (PDict kvs) (PDict kws) =
     (length kvs = length kws \<and>
      list_all (\<lambda>(k, v). case map_of kws k of None \<Rightarrow> False | Some w \<Rightarrow> py_eq v w) kvs)"
| "py_eq _ _ = False"

text \<open>\<open>d.get(k)\<close>: the value stored under \<open>k\<close>, or \<open>None\<close> when the key is absent.\<close>

definition dict_get :: "(string \<times> pyval) list \<Rightarrow> string \<Rightarrow> pyval" where
  "dict_get d k = (case map_of d k of None \<Rightarrow> PNone | Some v \<Rightarrow> v)"

text \<open>\<open>sep.join(xs)\<close> and \<open>s.split(c)\<close> for a one-character separator.\<close>

fun py_join :: "string \<Rightarrow> string list \<Rightarrow> string" where
  "py_join sep [] = []"
| "py_join sep [x] = x"
| "py_join sep (x # y # ys) = x @ sep @ py_join sep (y # ys)"

fun py_split :: "char \<Rightarrow> string \<Rightarrow> string list" where
  "py_split c [] = [[]]"
| "py_split c (x # xs) =
     (if x = c then [] # py_split c xs
      else (case py_split c xs of [] \<Rightarrow> [[x]] | w # ws \<Rightarrow> (x # w) # ws))"

text \<open>Decimal rendering of integers, as \<open>str(n)\<close> and \<open>f"{n}"\<close> produce it.\<close>

definition digit_char :: "nat \<Rightarrow> char" where
  "digit_char d = ''0123456789abcdef'' ! d"

fun decimal_digits :: "nat \<Rightarrow> string" where
  "decimal_digits n =
     (if 10 \<le> n then decimal_digits (n div 10) @ [digit_char (n mod 10)] else [digit_char n])"

declare decimal_digits.simps [simp del]

definition py_str_int :: "int \<Rightarrow> string" where
  "py_str_int i = (if 0 \<le> i then decimal_digits (nat i) else CHR ''-'' # decimal_digits (nat (- i)))"

text \<open>\<open>repr\<close> of a string (ASCII): single quotes unless the string holds a single
  quote and no double quote; the quote, the backslash and control characters escaped.\<close>

definition py_repr_char :: "char \<Rightarrow> char \<Rightarrow> string" where
  "py_repr_char q c =
     (if c = q \<or> c = CHR 0x5C then [CHR 0x5C, c]
      else if c = CHR 0x09 then [CHR 0x5C, CHR ''t'']
      else if c = CHR 0x0A then [CHR 0x5C, CHR ''n'']
      else if c = CHR 0x0D then [CHR 0x5C, CHR ''r'']
      else if (of_char c :: nat) < 32 \<or> (of_char c :: nat) = 127
        then [CHR 0x5C, CHR ''x'', digit_char (of_char c div 16), digit_char (of_char c mod 16)]
      else [c])"

definition py_repr_str :: "string \<Rightarrow> string" where
  "py_repr_str s =
     (let q = (if CHR 0x27 \<in> set s \<and> CHR 0x22 \<notin> set s then CHR 0x22 else CHR 0x27)
      in [q] @ concat (map (py_repr_char q) s) @ [q])"

text \<open>\<open>py_fmt False\<close> is \<open>str\<close> (what an f-string substitutes), \<open>py_fmt True\<close> is
  \<open>repr\<close> (what a container uses for its items).\<close>

fun py_fmt :: "bool \<Rightarrow> pyval \<Rightarrow> string" where
  "py_fmt r PNone = ''None''"
| "py_fmt r (PBool b) = (if b then ''True'' else ''False'')"
| "py_fmt r (PInt i) = py_str_int i"
| "py_fmt r (PStr s) = (if r then py_repr_str s else s)"
| "py_fmt r (PList xs) = ''['' @ py_join '', '' (map (py_fmt True) xs) @ '']''"
| "py_fmt r (PDict kvs) =
     ''{'' @ py_join '', '' (map (\<lambda>kv. py_repr_str (fst kv) @ '': '' @ py_fmt True (snd kv)) kvs) @ ''}''"

definition py_str :: "pyval \<Rightarrow> string" where
  "py_str v = py_fmt False v"

text \<open>A Python \<open>set\<close> that is only tested for membership and never listed (the
  claimed tools of the silent-action detection) is held as a list without duplicates.\<close>

definition py_set :: "string list \<Rightarrow> string list" where
  "py_set xs = remdups xs"

text \<open>
  A Python \<open>set\<close> that the code lists is a finite set, \<open>string fset\<close>, with
  \<open>|-|\<close> for \<open>-\<close> and \<open>|\<inter>|\<close> for \<open>&\<close>. The order in which \<open>list(s)\<close> enumerates a
  set is not a function of its elements: it follows the slots of the hash table, which
  depend on the hash seed of the process and on how the set was built. The model takes
  it from the runtime: at each place where the validator lists a set, the runtime gives
  every string a slot, and the set is listed by increasing slot (alphabetically among
  equal slots). Every order of every set arises from some assignment of slots.
\<close>

datatype listing = LIST_REQUIRED | LIST_ACTUAL | LIST_MISSING | LIST_FORBIDDEN | LIST_VIOLATIONS

type_synonym datetime = int

text \<open>What a run of the program reads from its environment: the wall clock
  (\<open>datetime.now()\<close>) and the iteration order of its sets.\<close>

record runtime =
  clock :: datetime
  slot :: "listing \<Rightarrow> string \<Rightarrow> nat"

definition list_of_set :: "runtime \<Rightarrow> listing \<Rightarrow> string fset \<Rightarrow> string list" where
  "list_of_set rt l S = sort_key (slot rt l) (sorted_list_of_fset S)"

text \<open>Truthiness of an \<open>Optional[str]\<close>: \<open>None\<close> and the empty string are falsy.\<close>

definition truthy :: "string option \<Rightarrow> bool" where
  "truthy s = (case s of None \<Rightarrow> False | Some t \<Rightarrow> t \<noteq> [])"

text \<open>
  A Python \<open>float\<close> is an IEEE binary64 number; it is held here as the real number it
  denotes. An arithmetic says how the exact result of one operation (\<open>+\<close>, \<open>-\<close>,
  \<open>*\<close>, \<open>/\<close>, the conversion of an integer) becomes a float, and what the built-in
  \<open>sum\<close> returns on a list of floats: CPython adds them left to right up to version
  3.11 and compensates the rounding errors from 3.12 on. The scorer is modelled over an
  arbitrary arithmetic. Two arithmetics are given: the real numbers without any rounding,
  and binary64 with the left-to-right sum.
\<close>

record arithmetic =
  rnd :: "real \<Rightarrow> real"
  fsum :: "real list \<Rightarrow> real"

definition exact_reals :: arithmetic where
  "exact_reals = \<lparr> rnd = (\<lambda>x. x), fsum = sum_list \<rparr>"

text \<open>Rounding to the nearest integer, ties to the even one.\<close>

definition round_half_even :: "real \<Rightarrow> int" where
  "round_half_even y =
     (let f = \<lfloor>y\<rfloor>; d = y - of_int f
      in if d < 1 / 2 then f else if 1 / 2 < d then f + 1 else if even f then f else f + 1)"

text \<open>
  \<open>binade x\<close> is the exponent of the power of two at or below \<open>\<bar>x\<bar>\<close>, for \<open>x \<noteq> 0\<close>
  (\<open>floorlog 2 n\<close> is the number of binary digits of \<open>n\<close>). A binary64 number has 53
  significant binary digits, so the floats around \<open>x\<close> are the multiples of
  \<open>2 ^ (binade x - 52)\<close>, and \<open>round_binary64 x\<close> is the one nearest to \<open>x\<close>, ties to
  the even multiple. Overflow to infinity and the subnormal numbers (magnitudes beyond
  \<open>2 ^ 1024\<close> or below \<open>2 ^ -1022\<close>) are not modelled.
\<close>

definition binade :: "real \<Rightarrow> int" where
  "binade x =
     (if 1 \<le> \<bar>x\<bar> then int (floorlog 2 (nat \<lfloor>\<bar>x\<bar>\<rfloor>)) - 1
      else - int (floorlog 2 (nat (\<lceil>1 / \<bar>x\<bar>\<rceil> - 1))))"

definition round_binary64 :: "real \<Rightarrow> real" where
  "round_binary64 x =
     (if x = 0 then 0
      else let u = 2 powi (binade x - 52) in of_int (round_half_even (x / u)) * u)"

definition binary64 :: arithmetic where
  "binary64 =
     \<lparr> rnd = round_binary64, fsum = foldl (\<lambda>acc x. round_binary64 (acc + x)) 0 \<rparr>"

text \<open>\<open>round(x, 2)\<close> of a float: the exact value of \<open>x\<close> is rounded to two decimals,
  ties to even, and the float of that decimal is returned.\<close>

definition py_round2 :: "arithmetic \<Rightarrow> real \<Rightarrow> real" where
  "py_round2 ar x = rnd ar (of_int (round_half_even (x * 100)) / 100)"

text \<open>The format \<open>:.1f\<close> of a positive float (a ratio above 1.5): the exact value of
  the float rounded to one decimal, ties to even. The argument is a binary64 number, so
  a quotient that is given exactly is first taken to its float (\<open>round_binary64\<close> leaves
  a float as it is): 37 / 20 is the float just above 1.85 and prints as 1.9.\<close>

definition format_1f :: "real \<Rightarrow> string" where
  "format_1f x =
     (let n = nat (round_half_even (round_binary64 x * 10))
      in decimal_digits (n div 10) @ ''.'' @ decimal_digits (n mod 10))"

section \<open>Data model\<close>

subsection \<open>Scenario (scenario\_engine/models.py)\<close>

datatype DifficultyLevel = EASY | MEDIUM_LEVEL | HARD

datatype ScenarioCategory =
  FILE_OPS | CODE_SEARCH | DEBUGGING | MULTI_STEP | EDGE_CASES | HALLUCINATION_TESTS

record Prompt =
  user_query :: string
  prompt_context :: "string option"
  files_mentioned :: "string list"

record ExpectedBehavior =
  required_tools :: "string list"
  optional_tools :: "string list"
  forbidden_tools :: "string list"
  required_parameters :: "(string \<times> (string \<times> pyval) list) list"
  sequence_matters :: bool
  expected_sequence :: "string list"
  min_tool_calls :: "int option"
  max_tool_calls :: "int option"

record HallucinationTraps =
  description :: string
  common_mistakes :: "string list"

record TestScenario =
  scenario_ident :: string
  scenario_name :: string
  category :: ScenarioCategory
  prompt :: Prompt
  expected_behavior :: ExpectedBehavior
  hallucination_traps :: "HallucinationTraps option"
  difficulty :: DifficultyLevel
  expected_time :: int

subsection \<open>Action log (action\_tracker/models.py)\<close>

record Action =
  sequence_number :: int
  function_name :: string
  arguments :: "(string \<times> pyval) list"
  action_timestamp :: "datetime option"
  raw_call_object :: "(string \<times> pyval) list option"
  call_id :: "string option"

record ActionSummary =
  unique_tools_used :: "string fset"
  tools_called_multiple_times :: "string list"
  tool_call_counts :: "(string \<times> int) list"
  total_execution_time_ms :: "real option"

record ActionLog =
  action_scenario_id :: "string option"
  total_calls :: int
  actions :: "Action list"
  summary :: ActionSummary

subsection \<open>Claim log (claim\_extractor/models.py)\<close>

datatype ClaimType = EXPLICIT | IMPLICIT | CONDITIONAL | VAGUE

record Claim =
  claim_text :: string
  action_verb :: "string option"
  target_object :: "string option"
  inferred_tool :: "string option"
  confidence :: real
  line_number :: "int option"
  claim_type :: ClaimType

record ClaimLog =
  claim_scenario_id :: "string option"
  total_claims :: int
  claims :: "Claim list"
  explicit_claims :: "Claim list"
  implicit_claims :: "Claim list"
  vague_statements :: "Claim list"

subsection \<open>Validation report (validation\_engine/models.py)\<close>

datatype ValidationStatus = PASS | FAIL | PARTIAL

datatype IssueSeverity = CRITICAL | HIGH | MEDIUM | LOW

datatype IssueType =
    MISSING_REQUIRED_TOOL
  | FORBIDDEN_TOOL_USED
  | WRONG_PARAMETER
  | WRONG_SEQUENCE
  | CLAIM_WITHOUT_ACTION
  | ACTION_WITHOUT_CLAIM
  | CLAIM_ACTION_MISMATCH
  | TOO_FEW_CALLS
  | TOO_MANY_CALLS

record RequirementCheck =
  name :: string
  status :: ValidationStatus
  expected :: "pyval option"
  actual :: "pyval option"
  missing :: "string list"
  extra :: "string list"
  details :: "string option"

record ConsistencyIssue =
  issue_type :: IssueType
  severity :: IssueSeverity
  claim :: "string option"
  action :: "string option"
  expected_tool :: "string option"
  actual_tool :: "string option"
  quote :: "string option"
  explanation :: string
  issue_details :: "(string \<times> pyval) list option"

record ValidationReport =
  scenario_id :: "string option"
  timestamp :: datetime
  pass_fail_status :: ValidationStatus
  required_tools_check :: RequirementCheck
  forbidden_tools_check :: RequirementCheck
  parameters_check :: RequirementCheck
  sequence_check :: "RequirementCheck option"
  call_count_check :: "RequirementCheck option"
  hallucinations :: "ConsistencyIssue list"
  silent_actions :: "ConsistencyIssue list"
  mismatches :: "ConsistencyIssue list"
  total_issues :: int
  critical_issues :: int
  high_severity_issues :: int
  medium_severity_issues :: int
  low_severity_issues :: int

section \<open>Validation engine (validation\_engine/validator.py)\<close>

definition check_required_tools ::
  "runtime \<Rightarrow> TestScenario \<Rightarrow> ActionLog \<Rightarrow> RequirementCheck" where
  "check_required_tools rt scenario action_log =
     (let required = fset_of_list (required_tools (expected_behavior scenario));
          actual_tools = unique_tools_used (summary action_log);
          missing_tools = list_of_set rt LIST_MISSING (required |-| actual_tools);
          st = (if missing_tools = [] then PASS else FAIL)
      in \<lparr> name = ''Required Tools'', status = st,
           expected = Some (PList (map PStr (list_of_set rt LIST_REQUIRED required))),
           actual = Some (PList (map PStr (list_of_set rt LIST_ACTUAL actual_tools))),
           missing = missing_tools, extra = [], details = None \<rparr>)"

definition check_forbidden_tools ::
  "runtime \<Rightarrow> TestScenario \<Rightarrow> ActionLog \<Rightarrow> RequirementCheck" where
  "check_forbidden_tools rt scenario action_log =
     (let forbidden = fset_of_list (forbidden_tools (expected_behavior scenario));
          actual_tools = unique_tools_used (summary action_log);
          violations = list_of_set rt LIST_VIOLATIONS (forbidden |\<inter>| actual_tools);
          st = (if violations = [] then PASS else FAIL)
      in \<lparr> name = ''Forbidden Tools'', status = st,
           expected = Some (PList (map PStr (list_of_set rt LIST_FORBIDDEN forbidden))),
           actual = Some (PList (map PStr (list_of_set rt LIST_ACTUAL actual_tools))),
           missing = [], extra = violations, details = None \<rparr>)"

text \<open>The three nested loops of \<open>_check_parameters\<close>, each threading the list
  \<open>errors\<close> that the source appends to.\<close>

definition check_one_parameter ::
  "string \<Rightarrow> Action \<Rightarrow> string \<times> pyval \<Rightarrow> string list \<Rightarrow> string list" where
  "check_one_parameter tool_name a p errors =
     (let param_name = fst p; expected_value = snd p;
          actual_value = dict_get (arguments a) param_name
      in if actual_value = PNone
           then errors @ [tool_name @ ''.'' @ param_name @ '': missing'']
         else if \<not> py_eq actual_value expected_value
           then errors @ [tool_name @ ''.'' @ param_name @ '': expected '' @ py_str expected_value
                            @ '', got '' @ py_str actual_value]
         else errors)"

definition check_one_action ::
  "string \<Rightarrow> (string \<times> pyval) list \<Rightarrow> Action \<Rightarrow> string list \<Rightarrow> string list" where
  "check_one_action tool_name expected_params a errors =
     fold (check_one_parameter tool_name a) expected_params errors"

definition check_one_tool ::
  "ActionLog \<Rightarrow> string \<times> (string \<times> pyval) list \<Rightarrow> string list \<Rightarrow> string list" where
  "check_one_tool action_log entry errors =
     (let tool_name = fst entry; expected_params = snd entry;
          matching = filter (\<lambda>a. function_name a = tool_name) (actions action_log)
      in if matching = [] then errors @ [''Tool '' @ tool_name @ '' not called'']
         else fold (check_one_action tool_name expected_params) matching errors)"

definition parameter_errors :: "TestScenario \<Rightarrow> ActionLog \<Rightarrow> string list" where
  "parameter_errors scenario action_log =
     fold (check_one_tool action_log) (required_parameters (expected_behavior scenario)) []"

definition check_parameters :: "TestScenario \<Rightarrow> ActionLog \<Rightarrow> RequirementCheck" where
  "check_parameters scenario action_log =
     (let errors = parameter_errors scenario action_log;
          st = (if errors = [] then PASS else FAIL)
      in \<lparr> name = ''Parameters'', status = st, expected = None, actual = None,
           missing = [], extra = [],
           details = (if errors \<noteq> [] then Some (py_join ''; '' errors) else None) \<rparr>)"

definition check_sequence :: "TestScenario \<Rightarrow> ActionLog \<Rightarrow> RequirementCheck option" where
  "check_sequence scenario action_log =
     (if \<not> sequence_matters (expected_behavior scenario) then None
      else
        let expected_seq = expected_sequence (expected_behavior scenario);
            actual_seq = map function_name (actions action_log);
            matches = (expected_seq = take (length expected_seq) actual_seq);
            st = (if matches then PASS else FAIL)
        in Some \<lparr> name = ''Sequence'', status = st,
                  expected = Some (PList (map PStr expected_seq)),
                  actual = Some (PList (map PStr actual_seq)),
                  missing = [], extra = [], details = None \<rparr>)"

definition optional_int :: "int option \<Rightarrow> pyval" where
  "optional_int x = (case x of None \<Rightarrow> PNone | Some i \<Rightarrow> PInt i)"

definition check_call_counts :: "TestScenario \<Rightarrow> ActionLog \<Rightarrow> RequirementCheck option" where
  "check_call_counts scenario action_log =
     (let min_calls = min_tool_calls (expected_behavior scenario);
          max_calls = max_tool_calls (expected_behavior scenario);
          actual_calls = total_calls action_log
      in if min_calls = None \<and> max_calls = None then None
         else
           let r0 = (PASS, None);
               r1 = (case min_calls of
                       Some m \<Rightarrow>
                         if actual_calls < m
                         then (FAIL, Some (''Too few calls: '' @ py_str_int actual_calls
                                             @ '' < '' @ py_str_int m))
                         else r0
                     | None \<Rightarrow> r0);
               r2 = (case max_calls of
                       Some m \<Rightarrow>
                         if actual_calls > m
                         then (FAIL, Some (''Too many calls: '' @ py_str_int actual_calls
                                             @ '' > '' @ py_str_int m))
                         else r1
                     | None \<Rightarrow> r1)
           in Some \<lparr> name = ''Call Count'', status = fst r2,
                     expected = Some (PDict [(''min'', optional_int min_calls),
                                             (''max'', optional_int max_calls)]),
                     actual = Some (PInt actual_calls),
                     missing = [], extra = [], details = snd r2 \<rparr>)"

text \<open>In an f-string a \<open>None\<close> field renders as the text \<open>None\<close>.\<close>

definition optional_str :: "string option \<Rightarrow> string" where
  "optional_str s = (case s of None \<Rightarrow> ''None'' | Some t \<Rightarrow> t)"

definition hallucination_issue :: "Claim \<Rightarrow> ConsistencyIssue" where
  "hallucination_issue c =
     \<lparr> issue_type = CLAIM_WITHOUT_ACTION, severity = HIGH,
       claim = Some (claim_text c), action = None,
       expected_tool = inferred_tool c, actual_tool = None,
       quote = Some (claim_text c),
       explanation = ''LLM claimed to '' @ optional_str (action_verb c)
                       @ '' but never called '' @ optional_str (inferred_tool c),
       issue_details = None \<rparr>"

definition hallucination_step :: "ActionLog \<Rightarrow> Claim \<Rightarrow> ConsistencyIssue list \<Rightarrow> ConsistencyIssue list" where
  "hallucination_step action_log c issues =
     (if \<not> truthy (inferred_tool c) then issues
      else
        let matching_actions =
              filter (\<lambda>a. Some (function_name a) = inferred_tool c) (actions action_log)
        in if matching_actions = [] then issues @ [hallucination_issue c] else issues)"

definition detect_hallucinations :: "ClaimLog \<Rightarrow> ActionLog \<Rightarrow> ConsistencyIssue list" where
  "detect_hallucinations claim_log action_log =
     fold (hallucination_step action_log) (explicit_claims claim_log) []"

definition silent_action_issue :: "Action \<Rightarrow> ConsistencyIssue" where
  "silent_action_issue a =
     \<lparr> issue_type = ACTION_WITHOUT_CLAIM, severity = MEDIUM,
       claim = None, action = Some (function_name a),
       expected_tool = None, actual_tool = None, quote = None,
       explanation = ''LLM called '' @ function_name a @ '' without mentioning it'',
       issue_details = Some [(''arguments'', PDict (arguments a))] \<rparr>"

definition claimed_tools :: "ClaimLog \<Rightarrow> string list" where
  "claimed_tools claim_log =
     py_set (List.map_filter
               (\<lambda>c. if truthy (inferred_tool c) then inferred_tool c else None)
               (claims claim_log))"

definition silent_action_step ::
  "string list \<Rightarrow> Action \<Rightarrow> ConsistencyIssue list \<Rightarrow> ConsistencyIssue list" where
  "silent_action_step claimed a issues =
     (if function_name a \<notin> set claimed then issues @ [silent_action_issue a] else issues)"

definition detect_silent_actions :: "ActionLog \<Rightarrow> ClaimLog \<Rightarrow> ConsistencyIssue list" where
  "detect_silent_actions action_log claim_log =
     fold (silent_action_step (claimed_tools claim_log)) (actions action_log) []"

definition detect_mismatches :: "ClaimLog \<Rightarrow> ActionLog \<Rightarrow> ConsistencyIssue list" where
  "detect_mismatches claim_log action_log = []"

definition determine_overall_status ::
  "int \<Rightarrow> int \<Rightarrow> RequirementCheck \<Rightarrow> RequirementCheck \<Rightarrow> ValidationStatus" where
  "determine_overall_status critical_count high_count required_check forbidden_check =
     (if critical_count > 0 \<or> status forbidden_check = FAIL then FAIL
      else if high_count > 0 \<or> status required_check = FAIL then PARTIAL
      else PASS)"

definition count_severity :: "IssueSeverity \<Rightarrow> ConsistencyIssue list \<Rightarrow> int" where
  "count_severity sev issues = int (length (filter (\<lambda>i. severity i = sev) issues))"

text \<open>\<open>validate\<close> constructs the report without a \<open>timestamp\<close>, so the field takes
  its default \<open>datetime.now()\<close>: the reading of the wall clock at the call. The clock
  and the iteration order of the sets come with the runtime, the first argument here.\<close>

definition validate :: "runtime \<Rightarrow> TestScenario \<Rightarrow> ActionLog \<Rightarrow> ClaimLog \<Rightarrow> ValidationReport" where
  "validate rt scenario action_log claim_log =
     (let required_check = check_required_tools rt scenario action_log;
          forbidden_check = check_forbidden_tools rt scenario action_log;
          params_check = check_parameters scenario action_log;
          seq_check = check_sequence scenario action_log;
          count_check = check_call_counts scenario action_log;
          halls = detect_hallucinations claim_log action_log;
          silents = detect_silent_actions action_log claim_log;
          mism = detect_mismatches claim_log action_log;
          all_issues = halls @ silents @ mism;
          critical_count = count_severity CRITICAL all_issues;
          high_count = count_severity HIGH all_issues;
          medium_count = count_severity MEDIUM all_issues;
          low_count = count_severity LOW all_issues;
          critical_count = (if status forbidden_check = FAIL then critical_count + 1 else critical_count);
          high_count = (if status required_check = FAIL then high_count + 1 else high_count);
          st = determine_overall_status critical_count high_count required_check forbidden_check
      in \<lparr> scenario_id = Some (scenario_ident scenario),
           timestamp = clock rt,
           pass_fail_status = st,
           required_tools_check = required_check,
           forbidden_tools_check = forbidden_check,
           parameters_check = params_check,
           sequence_check = seq_check,
           call_count_check = count_check,
           hallucinations = halls,
           silent_actions = silents,
           mismatches = mism,
           total_issues = int (length all_issues),
           critical_issues = critical_count,
           high_severity_issues = high_count,
           medium_severity_issues = medium_count,
           low_severity_issues = low_count \<rparr>)"

section \<open>Scoring system (scoring\_system)\<close>

datatype LetterGrade = A_PLUS | A | B | C | D | F

record ScoringCriteria =
  criteria_name :: string
  criteria_weight :: real
  criteria_description :: string

record Subscore =
  criterion :: string
  score :: real
  max_score :: real
  weight :: real
  weighted_score :: real
  subscore_explanation :: string

record Score =
  total :: real
  max_total :: real
  subscores :: "(string \<times> Subscore) list"
  grade :: LetterGrade
  percentile :: real
  score_explanation :: string

definition CRITERIA :: "(string \<times> ScoringCriteria) list" where
  "CRITERIA =
     [(''tool_selection'',
         \<lparr> criteria_name = ''Tool Selection Accuracy'', criteria_weight = 2.5,
           criteria_description = ''Calls correct tools for the task'' \<rparr>),
      (''parameters'',
         \<lparr> criteria_name = ''Parameter Correctness'', criteria_weight = 1.5,
           criteria_description = ''Function parameters are accurate and complete'' \<rparr>),
      (''sequence'',
         \<lparr> criteria_name = ''Execution Sequence'', criteria_weight = 1.5,
           criteria_description = ''Tools called in logical, efficient order'' \<rparr>),
      (''consistency'',
         \<lparr> criteria_name = ''Claim-Action Consistency'', criteria_weight = 2.5,
           criteria_description = ''Stated intentions match actual actions'' \<rparr>),
      (''compliance'',
         \<lparr> criteria_name = ''Compliance'', criteria_weight = 1.0,
           criteria_description = ''Follows constraints (no forbidden tools)'' \<rparr>),
      (''efficiency'',
         \<lparr> criteria_name = ''Efficiency'', criteria_weight = 1.0,
           criteria_description = ''Completes task with minimal tool calls'' \<rparr>)]"

text \<open>\<open>CRITERIA[key]\<close> for one of the six literal keys of the table.\<close>

definition criteria_at :: "string \<Rightarrow> ScoringCriteria" where
  "criteria_at key = (case map_of CRITERIA key of Some c \<Rightarrow> c
      | None \<Rightarrow> \<lparr> criteria_name = [], criteria_weight = 0, criteria_description = [] \<rparr>)"

text \<open>A subscore over the real numbers, without rounding: the reading of the
  specification's formulas.\<close>

definition make_subscore :: "ScoringCriteria \<Rightarrow> real \<Rightarrow> string \<Rightarrow> Subscore" where
  "make_subscore crit sc expl =
     \<lparr> criterion = criteria_name crit, score = sc, max_score = 10,
       weight = criteria_weight crit,
       weighted_score = (sc / 10) * criteria_weight crit,
       subscore_explanation = expl \<rparr>"

text \<open>A subscore as the scorer computes it: \<open>weighted = (score / 10.0) * criterion.weight\<close>
  is two float operations.\<close>

definition make_float_subscore ::
  "arithmetic \<Rightarrow> ScoringCriteria \<Rightarrow> real \<Rightarrow> string \<Rightarrow> Subscore" where
  "make_float_subscore ar crit sc expl =
     \<lparr> criterion = criteria_name crit, score = sc, max_score = 10,
       weight = criteria_weight crit,
       weighted_score = rnd ar (rnd ar (sc / 10) * criteria_weight crit),
       subscore_explanation = expl \<rparr>"

definition score_tool_selection ::
  "arithmetic \<Rightarrow> ValidationReport \<Rightarrow> TestScenario \<Rightarrow> Subscore" where
  "score_tool_selection ar validation_report scenario =
     (let crit = criteria_at ''tool_selection'';
          sc = 10;
          expl = [];
          n_missing = length (missing (required_tools_check validation_report));
          sc = (if n_missing > 0 then rnd ar (sc - rnd ar (real (n_missing * 3))) else sc);
          expl = (if n_missing > 0
                  then expl @ [''Missing '' @ decimal_digits n_missing @ '' required tool(s)'']
                  else expl);
          violations = length (extra (forbidden_tools_check validation_report));
          sc = (if violations > 0 then 0 else sc);
          expl = (if violations > 0
                  then expl @ [''Used '' @ decimal_digits violations @ '' forbidden tool(s)'']
                  else expl);
          sc = max 0 sc
      in make_float_subscore ar crit sc
           (if expl \<noteq> [] then py_join ''; '' expl else ''All required tools called correctly''))"

text \<open>Here \<open>max(0, 10 - penalty)\<close> is integer arithmetic.\<close>

definition score_parameters :: "arithmetic \<Rightarrow> ValidationReport \<Rightarrow> Subscore" where
  "score_parameters ar validation_report =
     (let crit = criteria_at ''parameters'';
          r0 = (10, ''All parameters correct'');
          r = (if status (parameters_check validation_report) \<noteq> PASS
               then (case details (parameters_check validation_report) of
                       None \<Rightarrow> r0
                     | Some errors \<Rightarrow>
                         if errors \<noteq> []
                         then let error_count = length (py_split CHR '';'' errors);
                                  penalty = error_count * 3
                              in (real_of_int (max 0 (10 - int penalty)),
                                  decimal_digits error_count @ '' parameter error(s)'')
                         else r0)
               else r0)
      in make_float_subscore ar crit (fst r) (snd r))"

definition score_sequence ::
  "arithmetic \<Rightarrow> ValidationReport \<Rightarrow> TestScenario \<Rightarrow> Subscore" where
  "score_sequence ar validation_report scenario =
     (let crit = criteria_at ''sequence'';
          r0 = (10, ''Correct sequence'');
          r = (if sequence_matters (expected_behavior scenario)
               then (case sequence_check validation_report of
                       None \<Rightarrow> r0
                     | Some chk \<Rightarrow> if status chk \<noteq> PASS then (5, ''Incorrect sequence'') else r0)
               else r0)
      in make_float_subscore ar crit (fst r) (snd r))"

definition score_consistency :: "arithmetic \<Rightarrow> ValidationReport \<Rightarrow> Subscore" where
  "score_consistency ar validation_report =
     (let crit = criteria_at ''consistency'';
          sc = 10;
          n_hallucinations = length (hallucinations validation_report);
          n_silent = length (silent_actions validation_report);
          sc = rnd ar (sc - rnd ar (real (n_hallucinations * 4)));
          sc = rnd ar (sc - rnd ar (real (n_silent * 2)));
          sc = max 0 sc;
          parts = [];
          parts = (if n_hallucinations > 0
                   then parts @ [decimal_digits n_hallucinations @ '' hallucination(s)''] else parts);
          parts = (if n_silent > 0
                   then parts @ [decimal_digits n_silent @ '' silent action(s)''] else parts)
      in make_float_subscore ar crit sc
           (if parts \<noteq> [] then py_join ''; '' parts else ''Perfect consistency''))"

definition score_compliance :: "arithmetic \<Rightarrow> ValidationReport \<Rightarrow> Subscore" where
  "score_compliance ar validation_report =
     (let crit = criteria_at ''compliance'';
          violations = length (extra (forbidden_tools_check validation_report));
          sc = (if violations > 0 then 0 else 10)
      in make_float_subscore ar crit sc
           (if sc = 10 then ''Full compliance''
            else ''Used '' @ decimal_digits violations @ '' forbidden tool(s)''))"

text \<open>The efficiency subscore over the real numbers, without rounding: the reading of
  the specification's formula.\<close>

definition score_efficiency :: "ActionLog \<Rightarrow> TestScenario \<Rightarrow> Subscore" where
  "score_efficiency action_log scenario =
     (let crit = criteria_at ''efficiency'';
          actual_calls = total_calls action_log;
          expected_calls = length (required_tools (expected_behavior scenario));
          expected_calls = (if expected_calls = 0 then 1 else expected_calls);
          ratio = real_of_int actual_calls / real expected_calls;
          r = (if ratio \<le> 1 then (10, ''Optimal efficiency'')
               else if ratio \<le> 1.5 then (7, ''Minor inefficiency'')
               else (max 0 (10 - ((ratio - 1) * 10)),
                     ''Inefficient ('' @ format_1f ratio @ ''x expected calls)''))
      in make_subscore crit (fst r) (snd r))"

text \<open>The efficiency subscore as the scorer computes it: the quotient of the two
  integers, the difference, the product and the second difference are float
  operations.\<close>

definition score_efficiency_float :: "arithmetic \<Rightarrow> ActionLog \<Rightarrow> TestScenario \<Rightarrow> Subscore" where
  "score_efficiency_float ar action_log scenario =
     (let crit = criteria_at ''efficiency'';
          actual_calls = total_calls action_log;
          expected_calls = length (required_tools (expected_behavior scenario));
          expected_calls = (if expected_calls = 0 then 1 else expected_calls);
          ratio = rnd ar (real_of_int actual_calls / real expected_calls);
          r = (if ratio \<le> 1 then (10, ''Optimal efficiency'')
               else if ratio \<le> 1.5 then (7, ''Minor inefficiency'')
               else (max 0 (rnd ar (10 - rnd ar (rnd ar (ratio - 1) * 10))),
                     ''Inefficient ('' @ format_1f ratio @ ''x expected calls)''))
      in make_float_subscore ar crit (fst r) (snd r))"

definition assign_grade :: "real \<Rightarrow> LetterGrade" where
  "assign_grade t =
     (if t \<ge> 9 then A_PLUS
      else if t \<ge> 8 then A
      else if t \<ge> 7 then B
      else if t \<ge> 6 then C
      else if t \<ge> 5 then D
      else F)"

definition generate_explanation :: "(string \<times> Subscore) list \<Rightarrow> ValidationReport \<Rightarrow> string" where
  "generate_explanation subs validation_report =
     (let parts = map (\<lambda>kv. criterion (snd kv) @ '': '' @ subscore_explanation (snd kv))
                      (filter (\<lambda>kv. score (snd kv) < 7) subs)
      in if parts = [] then ''Excellent performance across all criteria''
         else py_join ''; '' parts)"

definition calculate_score ::
  "arithmetic \<Rightarrow> ValidationReport \<Rightarrow> ActionLog \<Rightarrow> TestScenario \<Rightarrow> Score" where
  "calculate_score ar validation_report action_log scenario =
     (let subs = [(''tool_selection'', score_tool_selection ar validation_report scenario),
                  (''parameters'', score_parameters ar validation_report),
                  (''sequence'', score_sequence ar validation_report scenario),
                  (''consistency'', score_consistency ar validation_report),
                  (''compliance'', score_compliance ar validation_report),
                  (''efficiency'', score_efficiency_float ar action_log scenario)];
          unrounded = fsum ar (map (\<lambda>kv. weighted_score (snd kv)) subs)
      in \<lparr> total = py_round2 ar unrounded,
           max_total = 10,
           subscores = subs,
           grade = assign_grade unrounded,
           percentile = py_round2 ar (rnd ar (unrounded * 10)),
           score_explanation = generate_explanation subs validation_report \<rparr>)"

section \<open>Constructors with the defaults of the source, and sample inputs\<close>

text \<open>A runtime whose clock reads \<open>t\<close> and whose sets all iterate alphabetically.\<close>

definition runtime_at :: "datetime \<Rightarrow> runtime" where
  "runtime_at t = \<lparr> clock = t, slot = (\<lambda>l x. 0) \<rparr>"

text \<open>\<open>ExpectedBehavior()\<close> with every field at its declared default.\<close>

definition default_behavior :: ExpectedBehavior where
  "default_behavior =
     \<lparr> required_tools = [], optional_tools = [], forbidden_tools = [],
       required_parameters = [], sequence_matters = False, expected_sequence = [],
       min_tool_calls = None, max_tool_calls = None \<rparr>"

definition make_scenario :: "string \<Rightarrow> ExpectedBehavior \<Rightarrow> TestScenario" where
  "make_scenario i eb =
     \<lparr> scenario_ident = i, scenario_name = ''scenario'', category = FILE_OPS,
       prompt = \<lparr> user_query = ''query'', prompt_context = None, files_mentioned = [] \<rparr>,
       expected_behavior = eb, hallucination_traps = None,
       difficulty = MEDIUM_LEVEL, expected_time = 10 \<rparr>"

definition make_action :: "int \<Rightarrow> string \<Rightarrow> (string \<times> pyval) list \<Rightarrow> Action" where
  "make_action n f args =
     \<lparr> sequence_number = n, function_name = f, arguments = args,
       action_timestamp = None, raw_call_object = None, call_id = None \<rparr>"

text \<open>The keys of a \<open>Counter\<close>, in the order of their first occurrence.\<close>

definition counter_keys :: "string list \<Rightarrow> string list" where
  "counter_keys xs = rev (remdups (rev xs))"

text \<open>A log around a list of actions, with the call count and the summary derived from
  the actions the way \<open>ActionTracker\<close> derives them.\<close>

definition make_action_log :: "Action list \<Rightarrow> ActionLog" where
  "make_action_log acts =
     (let tool_names = map function_name acts
      in \<lparr> action_scenario_id = None,
           total_calls = int (length acts),
           actions = acts,
           summary =
             \<lparr> unique_tools_used = fset_of_list tool_names,
               tools_called_multiple_times =
                 filter (\<lambda>t. 1 < count_list tool_names t) (counter_keys tool_names),
               tool_call_counts =
                 map (\<lambda>t. (t, int (count_list tool_names t))) (counter_keys tool_names),
               total_execution_time_ms = None \<rparr> \<rparr>)"

definition make_claim :: "string \<Rightarrow> string option \<Rightarrow> ClaimType \<Rightarrow> Claim" where
  "make_claim txt tool ty =
     \<lparr> claim_text = txt, action_verb = None, target_object = None, inferred_tool = tool,
       confidence = 0, line_number = None, claim_type = ty \<rparr>"

text \<open>A log around a list of claims, partitioned the way
  \<open>ClaimExtractor.extract_claims\<close> partitions it: the three sub-lists are the claims
  of the respective type.\<close>

definition make_claim_log :: "Claim list \<Rightarrow> ClaimLog" where
  "make_claim_log cs =
     \<lparr> claim_scenario_id = None,
       total_claims = int (length cs),
       claims = cs,
       explicit_claims = filter (\<lambda>c. claim_type c = EXPLICIT) cs,
       implicit_claims = filter (\<lambda>c. claim_type c = IMPLICIT) cs,
       vague_statements = filter (\<lambda>c. claim_type c = VAGUE) cs \<rparr>"

definition sample_required :: TestScenario where
  "sample_required = make_scenario ''s1'' (default_behavior \<lparr> required_tools := [''read_file''] \<rparr>)"

definition sample_forbidden :: TestScenario where
  "sample_forbidden =
     make_scenario ''s2'' (default_behavior \<lparr> forbidden_tools := [''run_terminal_command''] \<rparr>)"

definition sample_forbidden_log :: ActionLog where
  "sample_forbidden_log = make_action_log [make_action 1 ''run_terminal_command'' []]"

definition sample_three_tools :: TestScenario where
  "sample_three_tools =
     make_scenario ''s3''
       (default_behavior \<lparr> required_tools := [''read_file'', ''edit_file'', ''list_directory''] \<rparr>)"

definition sample_five_calls :: ActionLog where
  "sample_five_calls =
     make_action_log
       [make_action 1 ''read_file'' [], make_action 2 ''edit_file'' [],
        make_action 3 ''list_directory'' [], make_action 4 ''read_file'' [],
        make_action 5 ''edit_file'' []]"

definition sample_three_claims :: ClaimLog where
  "sample_three_claims =
     make_claim_log
       [make_claim ''I will read the file'' (Some ''read_file'') EXPLICIT,
        make_claim ''I will edit the file'' (Some ''edit_file'') EXPLICIT,
        make_claim ''I will list the directory'' (Some ''list_directory'') EXPLICIT]"

text \<open>The report of one run on these three inputs; the clock reads 0.\<close>

definition sample_report :: ValidationReport where
  "sample_report = validate (runtime_at 0) sample_three_tools sample_five_calls sample_three_claims"

section \<open>Declarative descriptions of the checks\<close>

subsection \<open>Parameters check\<close>

text \<open>What the loops of \<open>_check_parameters\<close> append for one expected parameter of one
  matching action, and from there for one scenario entry: the argument is read with
  \<open>get\<close>, so an argument stored as \<open>None\<close> and an argument that is not there look
  the same.\<close>

definition parameter_error :: "string \<Rightarrow> Action \<Rightarrow> string \<times> pyval \<Rightarrow> string list" where
  "parameter_error tool_name a p =
     (if dict_get (arguments a) (fst p) = PNone
        then [tool_name @ ''.'' @ fst p @ '': missing'']
      else if \<not> py_eq (dict_get (arguments a) (fst p)) (snd p)
        then [tool_name @ ''.'' @ fst p @ '': expected '' @ py_str (snd p)
                @ '', got '' @ py_str (dict_get (arguments a) (fst p))]
      else [])"

definition tool_errors :: "ActionLog \<Rightarrow> string \<times> (string \<times> pyval) list \<Rightarrow> string list" where
  "tool_errors action_log entry =
     (if filter (\<lambda>a. function_name a = fst entry) (actions action_log) = []
        then [''Tool '' @ fst entry @ '' not called'']
      else concat (map (\<lambda>a. concat (map (parameter_error (fst entry) a) (snd entry)))
                       (filter (\<lambda>a. function_name a = fst entry) (actions action_log))))"

text \<open>The parameters check as the specification words it: the "missing" error is for a
  key that is absent from the arguments, and every present value that differs from the
  expected one is an "expected X, got Y" error.\<close>

definition parameter_error_as_specified ::
  "string \<Rightarrow> Action \<Rightarrow> string \<times> pyval \<Rightarrow> string list" where
  "parameter_error_as_specified tool_name a p =
     (case map_of (arguments a) (fst p) of
        None \<Rightarrow> [tool_name @ ''.'' @ fst p @ '': missing'']
      | Some v \<Rightarrow>
          if \<not> py_eq v (snd p)
          then [tool_name @ ''.'' @ fst p @ '': expected '' @ py_str (snd p)
                  @ '', got '' @ py_str v]
          else [])"

definition tool_errors_as_specified ::
  "ActionLog \<Rightarrow> string \<times> (string \<times> pyval) list \<Rightarrow> string list" where
  "tool_errors_as_specified action_log entry =
     (if filter (\<lambda>a. function_name a = fst entry) (actions action_log) = []
        then [''Tool '' @ fst entry @ '' not called'']
      else concat (map (\<lambda>a. concat (map (parameter_error_as_specified (fst entry) a) (snd entry)))
                       (filter (\<lambda>a. function_name a = fst entry) (actions action_log))))"

definition check_parameters_as_specified :: "TestScenario \<Rightarrow> ActionLog \<Rightarrow> RequirementCheck" where
  "check_parameters_as_specified scenario action_log =
     (let errors = concat (map (tool_errors_as_specified action_log)
                               (required_parameters (expected_behavior scenario)))
      in \<lparr> name = ''Parameters'', status = (if errors = [] then PASS else FAIL),
           expected = None, actual = None, missing = [], extra = [],
           details = (if errors = [] then None else Some (py_join ''; '' errors)) \<rparr>)"

text \<open>No argument of any recorded action is \<open>None\<close>.\<close>

definition no_none_arguments :: "ActionLog \<Rightarrow> bool" where
  "no_none_arguments action_log =
     list_all (\<lambda>a. list_all (\<lambda>kv. snd kv \<noteq> PNone) (arguments a)) (actions action_log)"

subsection \<open>Hallucinations and silent actions\<close>

definition tool_called :: "ActionLog \<Rightarrow> string option \<Rightarrow> bool" where
  "tool_called action_log t = list_ex (\<lambda>a. Some (function_name a) = t) (actions action_log)"

text \<open>Hallucination detection as the specification words it: over the claims of type
  \<open>EXPLICIT\<close>, with the test "the inferred tool is not null".\<close>

definition hallucinations_as_specified :: "ClaimLog \<Rightarrow> ActionLog \<Rightarrow> ConsistencyIssue list" where
  "hallucinations_as_specified claim_log action_log =
     map hallucination_issue
       (filter (\<lambda>c. claim_type c = EXPLICIT \<and> inferred_tool c \<noteq> None
                     \<and> \<not> tool_called action_log (inferred_tool c))
               (claims claim_log))"

text \<open>The claim log is partitioned as the extractor leaves it.\<close>

definition explicit_partition :: "ClaimLog \<Rightarrow> bool" where
  "explicit_partition claim_log =
     (explicit_claims claim_log = filter (\<lambda>c. claim_type c = EXPLICIT) (claims claim_log))"

text \<open>Silent-action detection as the specification words it: the claimed tools are the
  inferred tools that are not null.\<close>

definition silent_actions_as_specified :: "ActionLog \<Rightarrow> ClaimLog \<Rightarrow> ConsistencyIssue list" where
  "silent_actions_as_specified action_log claim_log =
     map silent_action_issue
       (filter (\<lambda>a. \<not> list_ex (\<lambda>c. inferred_tool c = Some (function_name a)) (claims claim_log))
               (actions action_log))"

subsection \<open>Further sample inputs\<close>

definition sample_path_parameter :: TestScenario where
  "sample_path_parameter =
     make_scenario ''s4''
       (default_behavior \<lparr> required_parameters := [(''read_file'', [(''path'', PStr ''a.txt'')])] \<rparr>)"

definition sample_none_argument :: ActionLog where
  "sample_none_argument = make_action_log [make_action 1 ''read_file'' [(''path'', PNone)]]"

definition sample_none_parameter :: TestScenario where
  "sample_none_parameter =
     make_scenario ''s5''
       (default_behavior \<lparr> required_parameters := [(''read_file'', [(''encoding'', PNone)])] \<rparr>)"

definition sample_none_encoding :: ActionLog where
  "sample_none_encoding =
     make_action_log [make_action 1 ''read_file'' [(''encoding'', PNone)]]"

definition sample_empty_tool_claims :: ClaimLog where
  "sample_empty_tool_claims = make_claim_log [make_claim ''I will do it'' (Some []) EXPLICIT]"

definition sample_unnamed_call :: ActionLog where
  "sample_unnamed_call = make_action_log [make_action 1 [] []]"

definition sample_edit_claim :: ClaimLog where
  "sample_edit_claim =
     make_claim_log [make_claim ''I will edit the file'' (Some ''edit_file'') EXPLICIT,
                     make_claim ''Looking at the directory'' (Some ''list_directory'') IMPLICIT]"

definition sample_list_call :: ActionLog where
  "sample_list_call =
     make_action_log [make_action 1 ''list_directory'' [(''path'', PStr ''.'')],
                      make_action 2 ''read_file'' [(''path'', PStr ''a.txt'')]]"

definition sample_sequence :: TestScenario where
  "sample_sequence =
     make_scenario ''s6''
       (default_behavior \<lparr> sequence_matters := True,
                            expected_sequence := [''read_file'', ''edit_file''] \<rparr>)"

definition sample_sequence_log :: ActionLog where
  "sample_sequence_log =
     make_action_log [make_action 1 ''read_file'' [], make_action 2 ''edit_file'' [],
                      make_action 3 ''list_directory'' []]"

definition sample_two_tools :: TestScenario where
  "sample_two_tools =
     make_scenario ''s7'' (default_behavior \<lparr> required_tools := [''read_file'', ''edit_file''] \<rparr>)"

definition sample_calls :: "int \<Rightarrow> ActionLog" where
  "sample_calls n = (make_action_log []) \<lparr> total_calls := n \<rparr>"

subsection \<open>Reports that differ in the order of their tool lists\<close>

text \<open>Two payloads that are lists with the same items, in any order; any other two
  payloads have to be equal.\<close>

fun payload_perm :: "pyval option \<Rightarrow> pyval option \<Rightarrow> bool" where
  "payload_perm (Some (PList xs)) (Some (PList ys)) = (mset xs = mset ys)"
| "payload_perm v w = (v = w)"

text \<open>Two checks that agree in name, status and details and list the same tools, each
  list in any order.\<close>

definition same_up_to_order :: "RequirementCheck \<Rightarrow> RequirementCheck \<Rightarrow> bool" where
  "same_up_to_order c d =
     (name c = name d \<and> status c = status d \<and> details c = details d
      \<and> mset (missing c) = mset (missing d) \<and> mset (extra c) = mset (extra d)
      \<and> payload_perm (expected c) (expected d) \<and> payload_perm (actual c) (actual d))"

text \<open>A runtime whose clock reads 0 and whose sets iterate with \<open>read_file\<close> first.\<close>

definition sample_other_order :: runtime where
  "sample_other_order =
     \<lparr> clock = 0, slot = (\<lambda>l x. if x = ''read_file'' then 0 else 1) \<rparr>"

subsection \<open>Sample inputs for the total score\<close>

text \<open>Eight required tools and thirteen calls, every tool claimed; the one call of
  \<open>read_file\<close> has the wrong path.\<close>

definition sample_eight_tools :: TestScenario where
  "sample_eight_tools =
     make_scenario ''s8''
       (default_behavior
          \<lparr> required_tools := [''read_file'', ''edit_file'', ''list_directory'', ''search_code'',
                                ''run_tests'', ''write_file'', ''delete_file'', ''git_status''],
            required_parameters := [(''read_file'', [(''path'', PStr ''a.txt'')])] \<rparr>)"

definition sample_thirteen_calls :: ActionLog where
  "sample_thirteen_calls =
     make_action_log
       [make_action 1 ''read_file'' [(''path'', PStr ''b.txt'')],
        make_action 2 ''edit_file'' [], make_action 3 ''list_directory'' [],
        make_action 4 ''search_code'' [], make_action 5 ''run_tests'' [],
        make_action 6 ''write_file'' [], make_action 7 ''delete_file'' [],
        make_action 8 ''git_status'' [], make_action 9 ''edit_file'' [],
        make_action 10 ''run_tests'' [], make_action 11 ''edit_file'' [],
        make_action 12 ''run_tests'' [], make_action 13 ''git_status'' []]"

definition sample_eight_claims :: ClaimLog where
  "sample_eight_claims =
     make_claim_log
       (map (\<lambda>t. make_claim ''I will use the tool'' (Some t) EXPLICIT)
            [''read_file'', ''edit_file'', ''list_directory'', ''search_code'',
             ''run_tests'', ''write_file'', ''delete_file'', ''git_status''])"

definition sample_eight_report :: ValidationReport where
  "sample_eight_report =
     validate (runtime_at 0) sample_eight_tools sample_thirteen_calls sample_eight_claims"

section \<open>Auxiliary lemmas\<close>

subsection \<open>Loops that only append\<close>

lemma fold_appending:
  assumes "\<And>x acc. f x acc = acc @ g x"
  shows "fold f xs acc = acc @ concat (map g xs)"
  by (induction xs arbitrary: acc) (simp_all add: assms)

lemma concat_map_if_single:
  "concat (map (\<lambda>x. if P x then [f x] else []) xs) = map f (filter P xs)"
  by (induction xs) simp_all

lemma check_one_parameter_appends:
  "check_one_parameter t a p errors = errors @ parameter_error t a p"
  by (simp add: check_one_parameter_def parameter_error_def Let_def)

lemma check_one_action_appends:
  "check_one_action t ps a errors = errors @ concat (map (parameter_error t a) ps)"
  unfolding check_one_action_def
  by (rule fold_appending) (rule check_one_parameter_appends)

lemma check_one_tool_appends:
  "check_one_tool al entry errors = errors @ tool_errors al entry"
proof (cases "filter (\<lambda>a. function_name a = fst entry) (actions al) = []")
  case True
  then show ?thesis by (simp add: check_one_tool_def tool_errors_def Let_def)
next
  case False
  have "fold (check_one_action (fst entry) (snd entry))
          (filter (\<lambda>a. function_name a = fst entry) (actions al)) errors
        = errors @ concat (map (\<lambda>a. concat (map (parameter_error (fst entry) a) (snd entry)))
                              (filter (\<lambda>a. function_name a = fst entry) (actions al)))"
    by (rule fold_appending) (rule check_one_action_appends)
  with False show ?thesis by (simp add: check_one_tool_def tool_errors_def Let_def)
qed

lemma parameter_errors_concat:
  "parameter_errors s al = concat (map (tool_errors al) (required_parameters (expected_behavior s)))"
proof -
  have "fold (check_one_tool al) (required_parameters (expected_behavior s)) []
        = [] @ concat (map (tool_errors al) (required_parameters (expected_behavior s)))"
    by (rule fold_appending) (rule check_one_tool_appends)
  then show ?thesis by (simp add: parameter_errors_def)
qed

lemma hallucination_step_appends:
  "hallucination_step al c issues =
     issues @ (if truthy (inferred_tool c) \<and> \<not> tool_called al (inferred_tool c)
               then [hallucination_issue c] else [])"
  by (simp add: hallucination_step_def tool_called_def Let_def filter_empty_conv list_ex_iff)

lemma detect_hallucinations_filter:
  "detect_hallucinations cl al =
     map hallucination_issue
       (filter (\<lambda>c. truthy (inferred_tool c) \<and> \<not> tool_called al (inferred_tool c))
               (explicit_claims cl))"
proof -
  have "fold (hallucination_step al) (explicit_claims cl) []
        = [] @ concat (map (\<lambda>c. if truthy (inferred_tool c) \<and> \<not> tool_called al (inferred_tool c)
                                 then [hallucination_issue c] else []) (explicit_claims cl))"
    by (rule fold_appending) (rule hallucination_step_appends)
  then show ?thesis by (simp add: detect_hallucinations_def concat_map_if_single)
qed

lemma silent_action_step_appends:
  "silent_action_step claimed a issues =
     issues @ (if function_name a \<notin> set claimed then [silent_action_issue a] else [])"
  by (simp add: silent_action_step_def)

lemma detect_silent_actions_filter:
  "detect_silent_actions al cl =
     map silent_action_issue
       (filter (\<lambda>a. function_name a \<notin> set (claimed_tools cl)) (actions al))"
proof -
  have "fold (silent_action_step (claimed_tools cl)) (actions al) []
        = [] @ concat (map (\<lambda>a. if function_name a \<notin> set (claimed_tools cl)
                                 then [silent_action_issue a] else []) (actions al))"
    by (rule fold_appending) (rule silent_action_step_appends)
  then show ?thesis by (simp add: detect_silent_actions_def concat_map_if_single)
qed

lemma claimed_tools_set:
  "t \<in> set (claimed_tools cl) \<longleftrightarrow>
     (\<exists>c \<in> set (claims cl). truthy (inferred_tool c) \<and> inferred_tool c = Some t)"
  by (force simp: claimed_tools_def py_set_def List.map_filter_def image_iff split: if_splits)

subsection \<open>Listing a set\<close>

lemma set_list_of_set: "set (list_of_set rt l S) = fset S"
  by (simp add: list_of_set_def)

lemma mset_list_of_set: "mset (list_of_set rt l S) = mset (sorted_list_of_fset S)"
  by (simp add: list_of_set_def)

lemma length_list_of_set: "length (list_of_set rt l S) = length (sorted_list_of_fset S)"
  by (simp add: list_of_set_def)

lemma list_of_set_empty_iff: "list_of_set rt l S = [] \<longleftrightarrow> S = {||}"
proof -
  have "list_of_set rt l S = [] \<longleftrightarrow> set (list_of_set rt l S) = {}"
    by simp
  also have "\<dots> \<longleftrightarrow> fset S = {}"
    by (simp only: set_list_of_set)
  also have "\<dots> \<longleftrightarrow> S = {||}"
    by (metis bot_fset.rep_eq fset_inject)
  finally show ?thesis .
qed

lemma forbidden_check_status:
  "status (check_forbidden_tools rt s al) = FAIL \<longleftrightarrow>
     set (forbidden_tools (expected_behavior s)) \<inter> fset (unique_tools_used (summary al)) \<noteq> {}"
proof -
  have "fset_of_list (forbidden_tools (expected_behavior s)) |\<inter>| unique_tools_used (summary al)
          = {||}
        \<longleftrightarrow> set (forbidden_tools (expected_behavior s))
              \<inter> fset (unique_tools_used (summary al)) = {}"
    by (metis bot_fset.rep_eq fset_cong fset_of_list.rep_eq inf_fset.rep_eq)
  then show ?thesis
    by (simp add: check_forbidden_tools_def Let_def list_of_set_empty_iff)
qed

lemma required_check_status:
  "status (check_required_tools rt s al) = FAIL \<longleftrightarrow>
     \<not> set (required_tools (expected_behavior s)) \<subseteq> fset (unique_tools_used (summary al))"
proof -
  have "fset_of_list (required_tools (expected_behavior s)) |-| unique_tools_used (summary al)
          = {||}
        \<longleftrightarrow> set (required_tools (expected_behavior s))
              \<subseteq> fset (unique_tools_used (summary al))"
    by (metis Diff_eq_empty_iff bot_fset.rep_eq fset_cong fset_of_list.rep_eq minus_fset.rep_eq)
  then show ?thesis
    by (simp add: check_required_tools_def Let_def list_of_set_empty_iff)
qed

lemma missing_tools_empty_iff:
  "missing (check_required_tools rt s al) = [] \<longleftrightarrow>
     set (required_tools (expected_behavior s)) \<subseteq> fset (unique_tools_used (summary al))"
  using required_check_status [of rt s al]
  by (simp add: check_required_tools_def Let_def split: if_splits)

lemma violations_empty_iff:
  "extra (check_forbidden_tools rt s al) = [] \<longleftrightarrow>
     set (forbidden_tools (expected_behavior s)) \<inter> fset (unique_tools_used (summary al)) = {}"
  using forbidden_check_status [of rt s al]
  by (simp add: check_forbidden_tools_def Let_def split: if_splits)

lemma missing_tools_length:
  "length (missing (required_tools_check (validate rt s al cl)))
     = length (sorted_list_of_fset
         (fset_of_list (required_tools (expected_behavior s)) |-| unique_tools_used (summary al)))"
  by (simp add: validate_def check_required_tools_def Let_def length_list_of_set)

lemma violations_length:
  "length (extra (forbidden_tools_check (validate rt s al cl)))
     = length (sorted_list_of_fset
         (fset_of_list (forbidden_tools (expected_behavior s)) |\<inter>| unique_tools_used (summary al)))"
  by (simp add: validate_def check_forbidden_tools_def Let_def length_list_of_set)

lemma truthy_iff: "truthy t \<longleftrightarrow> t \<noteq> None \<and> t \<noteq> Some []"
  by (simp add: truthy_def split: option.splits)

lemma claimed_iff_referenced:
  assumes "function_name a \<noteq> []"
  shows "function_name a \<in> set (claimed_tools cl) \<longleftrightarrow>
           list_ex (\<lambda>c. inferred_tool c = Some (function_name a)) (claims cl)"
  using assms by (fastforce simp: claimed_tools_set list_ex_iff truthy_iff)

subsection \<open>Unfolding the constructors\<close>

lemmas constructor_defs =
  default_behavior_def make_scenario_def make_action_def make_action_log_def make_claim_def
  make_claim_log_def Let_def

section \<open>Overall status\<close>

text \<open>
  C3. The overall status of a report is a priority cascade over the counts the report
  carries (which include the penalties for failed checks): \<open>FAIL\<close> exactly when the
  critical count is positive or the forbidden-tools check failed; otherwise \<open>PARTIAL\<close>
  exactly when the high count is positive or the required-tools check failed; otherwise
  \<open>PASS\<close>. Whenever the tools used intersect the forbidden tools of the scenario, the
  status is \<open>FAIL\<close>, whatever the claims and the other checks say.
\<close>

theorem validate_status_cascade:
  "pass_fail_status (validate rt s al cl) =
     (if 0 < critical_issues (validate rt s al cl)
           \<or> status (forbidden_tools_check (validate rt s al cl)) = FAIL then FAIL
      else if 0 < high_severity_issues (validate rt s al cl)
           \<or> status (required_tools_check (validate rt s al cl)) = FAIL then PARTIAL
      else PASS)
   \<and> (set (forbidden_tools (expected_behavior s)) \<inter> fset (unique_tools_used (summary al)) \<noteq> {}
        \<longrightarrow> pass_fail_status (validate rt s al cl) = FAIL)"
  by (simp add: validate_def Let_def determine_overall_status_def forbidden_check_status)

text \<open>The scenario that forbids \<open>run_terminal_command\<close>, against a log that calls it.\<close>

theorem validate_status_cascade_witness:
  "set (forbidden_tools (expected_behavior sample_forbidden))
     \<inter> fset (unique_tools_used (summary sample_forbidden_log)) \<noteq> {}
   \<and> pass_fail_status (validate (runtime_at 0) sample_forbidden sample_forbidden_log (make_claim_log [])) = FAIL"
proof -
  have h: "set (forbidden_tools (expected_behavior sample_forbidden))
             \<inter> fset (unique_tools_used (summary sample_forbidden_log)) \<noteq> {}"
    by (simp add: constructor_defs sample_forbidden_def sample_forbidden_log_def py_set_def)
  from validate_status_cascade [of "runtime_at 0" sample_forbidden sample_forbidden_log "make_claim_log []"] h
  show ?thesis by blast
qed

section \<open>Sequence check\<close>

text \<open>
  C8. The sequence check is absent (\<open>None\<close>, also in the report) exactly when the
  scenario's \<open>sequence_matters\<close> is false. When it is true the check is present, its
  status is \<open>PASS\<close> exactly when \<open>expected_sequence\<close> equals the prefix, of the same
  length, of the names of the recorded calls, and \<open>FAIL\<close> otherwise.
\<close>

theorem check_sequence_spec:
  "(check_sequence s al = None \<longleftrightarrow> \<not> sequence_matters (expected_behavior s))
   \<and> sequence_check (validate rt s al cl) = check_sequence s al
   \<and> (sequence_matters (expected_behavior s) \<longrightarrow>
        (\<exists>chk. check_sequence s al = Some chk
           \<and> (status chk = PASS \<longleftrightarrow>
                expected_sequence (expected_behavior s)
                  = take (length (expected_sequence (expected_behavior s)))
                         (map function_name (actions al)))
           \<and> (status chk = FAIL \<longleftrightarrow>
                expected_sequence (expected_behavior s)
                  \<noteq> take (length (expected_sequence (expected_behavior s)))
                         (map function_name (actions al)))))"
  by (simp add: check_sequence_def validate_def Let_def)

text \<open>Expected \<open>read_file, edit_file\<close>; the log calls them in that order, then a third
  tool.\<close>

theorem check_sequence_spec_witness:
  "sequence_matters (expected_behavior sample_sequence)
   \<and> map_option status (check_sequence sample_sequence sample_sequence_log) = Some PASS"
proof -
  have h: "sequence_matters (expected_behavior sample_sequence)"
    by (simp add: constructor_defs sample_sequence_def sample_sequence_log_def)
  have p: "expected_sequence (expected_behavior sample_sequence)
             = take (length (expected_sequence (expected_behavior sample_sequence)))
                    (map function_name (actions sample_sequence_log))"
    by (simp add: constructor_defs sample_sequence_def sample_sequence_log_def)
  from check_sequence_spec [of sample_sequence sample_sequence_log "runtime_at 0" "make_claim_log []"] h
  obtain chk where c: "check_sequence sample_sequence sample_sequence_log = Some chk"
    and "status chk = PASS \<longleftrightarrow>
           expected_sequence (expected_behavior sample_sequence)
             = take (length (expected_sequence (expected_behavior sample_sequence)))
                    (map function_name (actions sample_sequence_log))"
    by blast
  with p have "status chk = PASS" by blast
  with h c show ?thesis by simp
qed

section \<open>Efficiency subscore\<close>



section \<open>Hallucination detection\<close>

text \<open>
  C5 (as amended). Hallucination detection walks \<open>claim_log.explicit_claims\<close> and emits
  exactly one issue, of type \<open>CLAIM_WITHOUT_ACTION\<close> and severity \<open>HIGH\<close>, for every
  claim there whose \<open>inferred_tool\<close> is truthy (neither null nor the empty string) and is
  the \<open>function_name\<close> of no recorded action; it emits nothing else. For a claim log
  partitioned as the extractor leaves it, in which no explicit claim has the empty string
  as its inferred tool, these are exactly the issues for the \<open>EXPLICIT\<close>-type claims with
  a non-null inferred tool that no action carries, so that implicit, conditional and
  vague claims produce none.
\<close>

theorem detect_hallucinations_amended:
  "detect_hallucinations cl al =
     map hallucination_issue
       (filter (\<lambda>c. truthy (inferred_tool c) \<and> \<not> tool_called al (inferred_tool c))
               (explicit_claims cl))
   \<and> list_all (\<lambda>i. issue_type i = CLAIM_WITHOUT_ACTION \<and> severity i = HIGH)
        (detect_hallucinations cl al)
   \<and> (explicit_partition cl \<and> list_all (\<lambda>c. inferred_tool c \<noteq> Some []) (explicit_claims cl)
        \<longrightarrow> detect_hallucinations cl al = hallucinations_as_specified cl al)"
proof (intro conjI impI)
  show "detect_hallucinations cl al =
     map hallucination_issue
       (filter (\<lambda>c. truthy (inferred_tool c) \<and> \<not> tool_called al (inferred_tool c))
               (explicit_claims cl))"
    by (rule detect_hallucinations_filter)
  show "list_all (\<lambda>i. issue_type i = CLAIM_WITHOUT_ACTION \<and> severity i = HIGH)
        (detect_hallucinations cl al)"
    by (simp add: detect_hallucinations_filter list_all_iff hallucination_issue_def)
next
  assume h: "explicit_partition cl \<and> list_all (\<lambda>c. inferred_tool c \<noteq> Some []) (explicit_claims cl)"
  then have part: "explicit_claims cl = filter (\<lambda>c. claim_type c = EXPLICIT) (claims cl)"
    by (simp add: explicit_partition_def)
  from h have ne: "\<forall>c \<in> set (claims cl). claim_type c = EXPLICIT \<longrightarrow> inferred_tool c \<noteq> Some []"
    by (simp add: part list_all_iff)
  have "filter (\<lambda>c. truthy (inferred_tool c) \<and> \<not> tool_called al (inferred_tool c))
          (filter (\<lambda>c. claim_type c = EXPLICIT) (claims cl))
        = filter (\<lambda>c. claim_type c = EXPLICIT \<and> inferred_tool c \<noteq> None
                       \<and> \<not> tool_called al (inferred_tool c)) (claims cl)"
    unfolding filter_filter
    by (rule filter_cong) (use ne in \<open>auto simp: truthy_iff\<close>)
  then show "detect_hallucinations cl al = hallucinations_as_specified cl al"
    by (simp add: detect_hallucinations_filter hallucinations_as_specified_def part)
qed

text \<open>An explicit claim of \<open>edit_file\<close> and an implicit one of \<open>list_directory\<close>, against
  a log that calls \<open>list_directory\<close> and \<open>read_file\<close>: one issue, for the explicit claim.\<close>

theorem detect_hallucinations_amended_witness:
  "explicit_partition sample_edit_claim
   \<and> list_all (\<lambda>c. inferred_tool c \<noteq> Some []) (explicit_claims sample_edit_claim)
   \<and> detect_hallucinations sample_edit_claim sample_list_call
       = hallucinations_as_specified sample_edit_claim sample_list_call
   \<and> detect_hallucinations sample_edit_claim sample_list_call
       = [hallucination_issue (make_claim ''I will edit the file'' (Some ''edit_file'') EXPLICIT)]"
proof -
  have h: "explicit_partition sample_edit_claim
           \<and> list_all (\<lambda>c. inferred_tool c \<noteq> Some []) (explicit_claims sample_edit_claim)"
    by (simp add: constructor_defs sample_edit_claim_def sample_list_call_def
          explicit_partition_def)
  from detect_hallucinations_amended [of sample_edit_claim sample_list_call] h
  have eq: "detect_hallucinations sample_edit_claim sample_list_call
              = hallucinations_as_specified sample_edit_claim sample_list_call"
    by blast
  have v: "hallucinations_as_specified sample_edit_claim sample_list_call
             = [hallucination_issue (make_claim ''I will edit the file'' (Some ''edit_file'') EXPLICIT)]"
    by (simp add: constructor_defs sample_edit_claim_def sample_list_call_def
          hallucinations_as_specified_def tool_called_def)
  show ?thesis using h eq v by simp
qed

text \<open>C5 as stated fails for an explicit claim whose inferred tool is the empty string:
  the tool is not null and no action carries it, yet the guard
  \<open>if not claim.inferred_tool\<close> skips the claim and no issue is emitted.\<close>

theorem detect_hallucinations_counterexample:
  "explicit_partition sample_empty_tool_claims
   \<and> detect_hallucinations sample_empty_tool_claims (make_action_log []) = []
   \<and> length (hallucinations_as_specified sample_empty_tool_claims (make_action_log [])) = 1
   \<and> detect_hallucinations sample_empty_tool_claims (make_action_log [])
       \<noteq> hallucinations_as_specified sample_empty_tool_claims (make_action_log [])"
  by (simp add: constructor_defs sample_empty_tool_claims_def explicit_partition_def
        detect_hallucinations_def hallucination_step_def truthy_def
        hallucinations_as_specified_def tool_called_def)

section \<open>Silent-action detection\<close>

text \<open>
  C6 (as amended). Silent-action detection collects the tool names that claims of any
  type refer to through a truthy \<open>inferred_tool\<close> (neither null nor the empty string) and
  emits exactly one issue, of type \<open>ACTION_WITHOUT_CLAIM\<close> and severity \<open>MEDIUM\<close>, for
  every recorded action whose \<open>function_name\<close> is not among them, with that action's
  arguments as the detail payload; an action whose tool is claimed produces no issue.
  When every recorded action has a non-empty \<open>function_name\<close>, the collected names may
  equally be read as "the inferred tools that are not null".
\<close>

theorem detect_silent_actions_amended:
  "detect_silent_actions al cl =
     map silent_action_issue
       (filter (\<lambda>a. \<not> list_ex (\<lambda>c. truthy (inferred_tool c)
                                    \<and> inferred_tool c = Some (function_name a)) (claims cl))
               (actions al))
   \<and> list_all (\<lambda>i. issue_type i = ACTION_WITHOUT_CLAIM \<and> severity i = MEDIUM)
        (detect_silent_actions al cl)
   \<and> map issue_details (detect_silent_actions al cl)
       = map (\<lambda>a. Some [(''arguments'', PDict (arguments a))])
           (filter (\<lambda>a. \<not> list_ex (\<lambda>c. truthy (inferred_tool c)
                                        \<and> inferred_tool c = Some (function_name a)) (claims cl))
                   (actions al))
   \<and> (list_all (\<lambda>a. function_name a \<noteq> []) (actions al)
        \<longrightarrow> detect_silent_actions al cl = silent_actions_as_specified al cl)"
proof (intro conjI impI)
  have "filter (\<lambda>a. function_name a \<notin> set (claimed_tools cl)) (actions al)
        = filter (\<lambda>a. \<not> list_ex (\<lambda>c. truthy (inferred_tool c)
                                    \<and> inferred_tool c = Some (function_name a)) (claims cl))
               (actions al)"
    by (rule filter_cong) (auto simp: claimed_tools_set list_ex_iff)
  then show eq: "detect_silent_actions al cl =
     map silent_action_issue
       (filter (\<lambda>a. \<not> list_ex (\<lambda>c. truthy (inferred_tool c)
                                    \<and> inferred_tool c = Some (function_name a)) (claims cl))
               (actions al))"
    by (simp add: detect_silent_actions_filter)
  show "map issue_details (detect_silent_actions al cl)
       = map (\<lambda>a. Some [(''arguments'', PDict (arguments a))])
           (filter (\<lambda>a. \<not> list_ex (\<lambda>c. truthy (inferred_tool c)
                                        \<and> inferred_tool c = Some (function_name a)) (claims cl))
                   (actions al))"
    unfolding eq by (simp add: silent_action_issue_def)
  show "list_all (\<lambda>i. issue_type i = ACTION_WITHOUT_CLAIM \<and> severity i = MEDIUM)
        (detect_silent_actions al cl)"
    by (simp add: detect_silent_actions_filter list_all_iff silent_action_issue_def)
next
  assume "list_all (\<lambda>a. function_name a \<noteq> []) (actions al)"
  then have ne: "\<forall>a \<in> set (actions al). function_name a \<noteq> []"
    by (simp add: list_all_iff)
  have "filter (\<lambda>a. function_name a \<notin> set (claimed_tools cl)) (actions al)
        = filter (\<lambda>a. \<not> list_ex (\<lambda>c. inferred_tool c = Some (function_name a)) (claims cl))
               (actions al)"
    by (rule filter_cong) (use ne in \<open>simp_all add: claimed_iff_referenced\<close>)
  then show "detect_silent_actions al cl = silent_actions_as_specified al cl"
    by (simp add: detect_silent_actions_filter silent_actions_as_specified_def)
qed

text \<open>Calls of \<open>list_directory\<close> and \<open>read_file\<close>, against claims of \<open>edit_file\<close> and
  \<open>list_directory\<close>: one issue, for \<open>read_file\<close>.\<close>

theorem detect_silent_actions_amended_witness:
  "list_all (\<lambda>a. function_name a \<noteq> []) (actions sample_list_call)
   \<and> detect_silent_actions sample_list_call sample_edit_claim
       = silent_actions_as_specified sample_list_call sample_edit_claim
   \<and> detect_silent_actions sample_list_call sample_edit_claim
       = [silent_action_issue (make_action 2 ''read_file'' [(''path'', PStr ''a.txt'')])]"
proof -
  have h: "list_all (\<lambda>a. function_name a \<noteq> []) (actions sample_list_call)"
    by (simp add: constructor_defs sample_list_call_def sample_edit_claim_def)
  from detect_silent_actions_amended [of sample_list_call sample_edit_claim] h
  have eq: "detect_silent_actions sample_list_call sample_edit_claim
              = silent_actions_as_specified sample_list_call sample_edit_claim"
    by blast
  have v: "silent_actions_as_specified sample_list_call sample_edit_claim
             = [silent_action_issue (make_action 2 ''read_file'' [(''path'', PStr ''a.txt'')])]"
    by (simp add: constructor_defs sample_list_call_def sample_edit_claim_def
          silent_actions_as_specified_def)
  show ?thesis using h eq v by simp
qed

text \<open>C6 as stated fails for an action whose \<open>function_name\<close> is the empty string when
  a claim has the empty string as its inferred tool: the tool is referenced by a
  non-null \<open>inferred_tool\<close>, yet the comprehension's filter \<open>if c.inferred_tool\<close> leaves
  it out of the set and an issue is emitted.\<close>

theorem detect_silent_actions_counterexample:
  "detect_silent_actions sample_unnamed_call sample_empty_tool_claims
     = [silent_action_issue (make_action 1 [] [])]
   \<and> silent_actions_as_specified sample_unnamed_call sample_empty_tool_claims = []
   \<and> detect_silent_actions sample_unnamed_call sample_empty_tool_claims
       \<noteq> silent_actions_as_specified sample_unnamed_call sample_empty_tool_claims"
  by (simp add: constructor_defs sample_unnamed_call_def sample_empty_tool_claims_def
        detect_silent_actions_def silent_action_step_def claimed_tools_def py_set_def
        List.map_filter_def truthy_def silent_actions_as_specified_def)

section \<open>Parameters check\<close>

lemma dict_get_none_iff:
  assumes "list_all (\<lambda>kv. snd kv \<noteq> PNone) d"
  shows "dict_get d k = PNone \<longleftrightarrow> map_of d k = None"
proof (cases "map_of d k")
  case None
  then show ?thesis by (simp add: dict_get_def)
next
  case (Some v)
  then have "(k, v) \<in> set d" by (rule map_of_SomeD)
  with assms have "v \<noteq> PNone" by (auto simp: list_all_iff)
  with Some show ?thesis by (simp add: dict_get_def)
qed

lemma parameter_error_as_specified_eq:
  assumes "list_all (\<lambda>kv. snd kv \<noteq> PNone) (arguments a)"
  shows "parameter_error t a p = parameter_error_as_specified t a p"
proof (cases "map_of (arguments a) (fst p)")
  case None
  then show ?thesis
    by (simp add: parameter_error_def parameter_error_as_specified_def dict_get_def)
next
  case (Some v)
  with dict_get_none_iff [OF assms, of "fst p"] have "dict_get (arguments a) (fst p) \<noteq> PNone"
    by simp
  moreover from Some have "dict_get (arguments a) (fst p) = v" by (simp add: dict_get_def)
  ultimately show ?thesis using Some
    by (simp add: parameter_error_def parameter_error_as_specified_def)
qed

lemma tool_errors_as_specified_eq:
  assumes "no_none_arguments al"
  shows "tool_errors al entry = tool_errors_as_specified al entry"
proof -
  have "concat (map (parameter_error (fst entry) a) (snd entry))
        = concat (map (parameter_error_as_specified (fst entry) a) (snd entry))"
    if "a \<in> set (filter (\<lambda>a. function_name a = fst entry) (actions al))" for a
  proof -
    from that assms have "list_all (\<lambda>kv. snd kv \<noteq> PNone) (arguments a)"
      by (auto simp: no_none_arguments_def list_all_iff)
    then have "parameter_error (fst entry) a = parameter_error_as_specified (fst entry) a"
      by (intro ext parameter_error_as_specified_eq)
    then show ?thesis by simp
  qed
  then have "map (\<lambda>a. concat (map (parameter_error (fst entry) a) (snd entry)))
               (filter (\<lambda>a. function_name a = fst entry) (actions al))
           = map (\<lambda>a. concat (map (parameter_error_as_specified (fst entry) a) (snd entry)))
               (filter (\<lambda>a. function_name a = fst entry) (actions al))"
    by (intro map_cong refl)
  then show ?thesis by (simp only: tool_errors_def tool_errors_as_specified_def)
qed

text \<open>
  C7 (as amended). The parameters check visits every (tool, expected parameters) entry
  of the scenario: when no action has the tool's name it appends a "not called" error;
  otherwise, for every matching action and every expected parameter, it reads the
  argument with \<open>get\<close> and appends a "missing" error when the result is \<open>None\<close> (the
  key is absent, or present with the value \<open>None\<close>) and an "expected X, got Y" error
  when the result is not \<open>None\<close> and differs from the expected value under \<open>==\<close>. The
  errors are joined with \<open>"; "\<close> into \<open>details\<close>; the status is \<open>FAIL\<close> exactly when
  there is an error, and \<open>PASS\<close> with null details otherwise. When no recorded argument
  is \<open>None\<close>, "missing" means precisely "the key is absent".
\<close>

theorem check_parameters_amended:
  "parameter_errors s al
     = concat (map (tool_errors al) (required_parameters (expected_behavior s)))
   \<and> details (check_parameters s al)
       = (if parameter_errors s al = [] then None
          else Some (py_join ''; '' (parameter_errors s al)))
   \<and> (status (check_parameters s al) = FAIL \<longleftrightarrow> parameter_errors s al \<noteq> [])
   \<and> (status (check_parameters s al) = PASS \<longleftrightarrow> parameter_errors s al = [])
   \<and> (no_none_arguments al \<longrightarrow> check_parameters s al = check_parameters_as_specified s al)"
proof (intro conjI impI)
  show "parameter_errors s al
     = concat (map (tool_errors al) (required_parameters (expected_behavior s)))"
    by (rule parameter_errors_concat)
  show "details (check_parameters s al)
       = (if parameter_errors s al = [] then None
          else Some (py_join ''; '' (parameter_errors s al)))"
    by (simp add: check_parameters_def Let_def)
  show "status (check_parameters s al) = FAIL \<longleftrightarrow> parameter_errors s al \<noteq> []"
    by (simp add: check_parameters_def Let_def)
  show "status (check_parameters s al) = PASS \<longleftrightarrow> parameter_errors s al = []"
    by (simp add: check_parameters_def Let_def)
next
  assume "no_none_arguments al"
  then have "map (tool_errors al) (required_parameters (expected_behavior s))
             = map (tool_errors_as_specified al) (required_parameters (expected_behavior s))"
    by (simp add: tool_errors_as_specified_eq)
  then have "parameter_errors s al
             = concat (map (tool_errors_as_specified al) (required_parameters (expected_behavior s)))"
    by (simp only: parameter_errors_concat)
  then show "check_parameters s al = check_parameters_as_specified s al"
    unfolding check_parameters_def check_parameters_as_specified_def Let_def by presburger
qed

text \<open>The scenario expects \<open>read_file\<close> with \<open>path = "a.txt"\<close>; the log calls it so.\<close>

theorem check_parameters_amended_witness:
  "no_none_arguments sample_list_call
   \<and> check_parameters sample_path_parameter sample_list_call
       = check_parameters_as_specified sample_path_parameter sample_list_call
   \<and> status (check_parameters sample_path_parameter sample_list_call) = PASS"
proof -
  have h: "no_none_arguments sample_list_call"
    by (simp add: constructor_defs sample_list_call_def sample_path_parameter_def
          no_none_arguments_def)
  from check_parameters_amended [of sample_path_parameter sample_list_call] h
  have eq: "check_parameters sample_path_parameter sample_list_call
       = check_parameters_as_specified sample_path_parameter sample_list_call"
    by blast
  have "status (check_parameters_as_specified sample_path_parameter sample_list_call) = PASS"
    by (simp add: constructor_defs sample_list_call_def sample_path_parameter_def
          check_parameters_as_specified_def tool_errors_as_specified_def
          parameter_error_as_specified_def)
  with h eq show ?thesis by simp
qed

text \<open>C7 as stated fails when the argument is present with the value \<open>None\<close>: the key
  is not absent and the value differs from the expected \<open>"a.txt"\<close>, yet the error is
  "missing" and not "expected a.txt, got None".\<close>

theorem check_parameters_counterexample:
  "map_of (arguments (make_action 1 ''read_file'' [(''path'', PNone)])) ''path'' = Some PNone
   \<and> details (check_parameters sample_path_parameter sample_none_argument)
       = Some ''read_file.path: missing''
   \<and> details (check_parameters_as_specified sample_path_parameter sample_none_argument)
       = Some ''read_file.path: expected a.txt, got None''
   \<and> check_parameters sample_path_parameter sample_none_argument
       \<noteq> check_parameters_as_specified sample_path_parameter sample_none_argument"
  by (simp add: constructor_defs sample_path_parameter_def sample_none_argument_def
        check_parameters_def parameter_errors_def check_one_tool_def check_one_action_def
        check_one_parameter_def dict_get_def check_parameters_as_specified_def
        tool_errors_as_specified_def parameter_error_as_specified_def py_str_def)

section \<open>Arguments and expected values that are \<open>None\<close>\<close>

lemma py_eq_None_iff: "py_eq v PNone \<longleftrightarrow> v = PNone"
  by (cases v) simp_all

lemma parameter_error_none_expected:
  "\<exists>msg. parameter_error t a (p, PNone) = [msg]"
  by (simp add: parameter_error_def py_eq_None_iff)

lemma parameter_error_in_errors:
  assumes "(t, ps) \<in> set (required_parameters (expected_behavior s))"
    and "(p, e) \<in> set ps" and "a \<in> set (actions al)" and "function_name a = t"
  shows "set (parameter_error t a (p, e)) \<subseteq> set (parameter_errors s al)"
proof -
  from assms(3,4) have ne: "filter (\<lambda>a. function_name a = t) (actions al) \<noteq> []"
    by (auto simp: filter_empty_conv)
  from assms(3,4) have "a \<in> set (filter (\<lambda>a. function_name a = t) (actions al))"
    by simp
  with assms(2) have "set (parameter_error t a (p, e)) \<subseteq> set (tool_errors al (t, ps))"
    using ne by (fastforce simp: tool_errors_def)
  with assms(1) show ?thesis
    by (fastforce simp: parameter_errors_concat)
qed

text \<open>
  C10. In the parameters check an argument whose key is present with the value \<open>None\<close>
  is reported by the "missing" error, not as a value mismatch. Hence, when the scenario
  expects the value \<open>None\<close> for a parameter of a tool that is called, every matching
  action adds an error, also when its argument is exactly \<open>None\<close>, and the check's
  status is \<open>FAIL\<close>.
\<close>

theorem none_parameter_never_passes:
  assumes "(t, ps) \<in> set (required_parameters (expected_behavior s))"
    and "(p, e) \<in> set ps" and "a \<in> set (actions al)" and "function_name a = t"
  shows "(map_of (arguments a) p = Some PNone \<longrightarrow>
            check_one_parameter t a (p, e) errors = errors @ [t @ ''.'' @ p @ '': missing'']
            \<and> t @ ''.'' @ p @ '': missing'' \<in> set (parameter_errors s al))
         \<and> (e = PNone \<longrightarrow>
              (\<exists>msg. check_one_parameter t a (p, e) errors = errors @ [msg])
              \<and> status (check_parameters s al) = FAIL)"
proof (intro conjI impI)
  assume m: "map_of (arguments a) p = Some PNone"
  then have pe: "parameter_error t a (p, e) = [t @ ''.'' @ p @ '': missing'']"
    by (simp add: parameter_error_def dict_get_def)
  then show "check_one_parameter t a (p, e) errors = errors @ [t @ ''.'' @ p @ '': missing'']"
    by (simp add: check_one_parameter_appends)
  from parameter_error_in_errors [OF assms] pe
  show "t @ ''.'' @ p @ '': missing'' \<in> set (parameter_errors s al)"
    by simp
next
  assume n: "e = PNone"
  from parameter_error_none_expected [of t a p] obtain msg
    where pe: "parameter_error t a (p, PNone) = [msg]" by blast
  then show "\<exists>msg. check_one_parameter t a (p, e) errors = errors @ [msg]"
    using n by (simp add: check_one_parameter_appends)
  from parameter_error_in_errors [OF assms] pe n have "msg \<in> set (parameter_errors s al)"
    by simp
  then have "parameter_errors s al \<noteq> []" by auto
  then show "status (check_parameters s al) = FAIL"
    by (simp add: check_parameters_def Let_def)
qed

text \<open>The scenario expects \<open>encoding = None\<close> for \<open>read_file\<close>; the log calls
  \<open>read_file\<close> with \<open>encoding = None\<close>.\<close>

theorem none_parameter_never_passes_witness:
  "(''read_file'', [(''encoding'', PNone)])
      \<in> set (required_parameters (expected_behavior sample_none_parameter))
   \<and> (''encoding'', PNone) \<in> set [(''encoding'', PNone)]
   \<and> make_action 1 ''read_file'' [(''encoding'', PNone)] \<in> set (actions sample_none_encoding)
   \<and> function_name (make_action 1 ''read_file'' [(''encoding'', PNone)]) = ''read_file''
   \<and> map_of (arguments (make_action 1 ''read_file'' [(''encoding'', PNone)])) ''encoding''
        = Some PNone
   \<and> ''read_file.encoding: missing''
        \<in> set (parameter_errors sample_none_parameter sample_none_encoding)
   \<and> status (check_parameters sample_none_parameter sample_none_encoding) = FAIL"
proof -
  have h1: "(''read_file'', [(''encoding'', PNone)])
      \<in> set (required_parameters (expected_behavior sample_none_parameter))"
    by (simp add: constructor_defs sample_none_parameter_def sample_none_encoding_def)
  have h2: "(''encoding'', PNone) \<in> set [(''encoding'', PNone)]" by simp
  have h3: "make_action 1 ''read_file'' [(''encoding'', PNone)] \<in> set (actions sample_none_encoding)"
    by (simp add: constructor_defs sample_none_parameter_def sample_none_encoding_def)
  have h4: "function_name (make_action 1 ''read_file'' [(''encoding'', PNone)]) = ''read_file''"
    by (simp add: constructor_defs sample_none_parameter_def sample_none_encoding_def)
  have h5: "map_of (arguments (make_action 1 ''read_file'' [(''encoding'', PNone)])) ''encoding''
        = Some PNone"
    by (simp add: constructor_defs sample_none_parameter_def sample_none_encoding_def)
  from none_parameter_never_passes [OF h1 h2 h3 h4, of "[]"] h5
  have "''read_file'' @ ''.'' @ ''encoding'' @ '': missing''
          \<in> set (parameter_errors sample_none_parameter sample_none_encoding)
        \<and> status (check_parameters sample_none_parameter sample_none_encoding) = FAIL"
    by blast
  with h1 h2 h3 h4 h5 show ?thesis by simp
qed

section \<open>Aggregate counts\<close>

lemma severity_counts_total:
  "count_severity CRITICAL xs + count_severity HIGH xs + count_severity MEDIUM xs
     + count_severity LOW xs = int (length xs)"
proof (induction xs)
  case Nil
  then show ?case by (simp add: count_severity_def)
next
  case (Cons x xs)
  then show ?case by (cases "severity x") (simp_all add: count_severity_def)
qed

text \<open>
  C2 (as amended). In every report the critical count is the number of \<open>CRITICAL\<close>
  issues in hallucinations + silent actions + mismatches, plus 1 if the forbidden-tools
  check failed; the high count is the number of \<open>HIGH\<close> issues, plus 1 if the
  required-tools check failed; the medium and low counts are the respective numbers of
  issues; and \<open>total_issues\<close> is the length of the three lists together, without the
  two penalties: adding one for each failed check to \<open>total_issues\<close> gives the sum of
  the four per-severity counts.
\<close>

theorem validate_counts_amended:
  "critical_issues (validate rt s al cl)
     = count_severity CRITICAL (hallucinations (validate rt s al cl)
                                @ silent_actions (validate rt s al cl)
                                @ mismatches (validate rt s al cl))
       + (if status (forbidden_tools_check (validate rt s al cl)) = FAIL then 1 else 0)
   \<and> high_severity_issues (validate rt s al cl)
     = count_severity HIGH (hallucinations (validate rt s al cl)
                            @ silent_actions (validate rt s al cl)
                            @ mismatches (validate rt s al cl))
       + (if status (required_tools_check (validate rt s al cl)) = FAIL then 1 else 0)
   \<and> medium_severity_issues (validate rt s al cl)
     = count_severity MEDIUM (hallucinations (validate rt s al cl)
                              @ silent_actions (validate rt s al cl)
                              @ mismatches (validate rt s al cl))
   \<and> low_severity_issues (validate rt s al cl)
     = count_severity LOW (hallucinations (validate rt s al cl)
                           @ silent_actions (validate rt s al cl)
                           @ mismatches (validate rt s al cl))
   \<and> total_issues (validate rt s al cl)
     = int (length (hallucinations (validate rt s al cl)
                    @ silent_actions (validate rt s al cl)
                    @ mismatches (validate rt s al cl)))
   \<and> total_issues (validate rt s al cl)
       + (if status (forbidden_tools_check (validate rt s al cl)) = FAIL then 1 else 0)
       + (if status (required_tools_check (validate rt s al cl)) = FAIL then 1 else 0)
     = critical_issues (validate rt s al cl) + high_severity_issues (validate rt s al cl)
       + medium_severity_issues (validate rt s al cl) + low_severity_issues (validate rt s al cl)"
proof -
  let ?issues = "detect_hallucinations cl al @ detect_silent_actions al cl @ detect_mismatches cl al"
  have t: "count_severity CRITICAL ?issues + count_severity HIGH ?issues
             + count_severity MEDIUM ?issues + count_severity LOW ?issues = int (length ?issues)"
    by (rule severity_counts_total)
  show ?thesis
    using t by (simp add: validate_def Let_def)
qed

text \<open>A forbidden tool is called and not mentioned: one silent action, one penalty.\<close>

theorem validate_counts_amended_witness:
  "status (forbidden_tools_check (validate (runtime_at 0) sample_forbidden sample_forbidden_log (make_claim_log []))) = FAIL
   \<and> critical_issues (validate (runtime_at 0) sample_forbidden sample_forbidden_log (make_claim_log [])) = 1
   \<and> medium_severity_issues (validate (runtime_at 0) sample_forbidden sample_forbidden_log (make_claim_log [])) = 1
   \<and> total_issues (validate (runtime_at 0) sample_forbidden sample_forbidden_log (make_claim_log [])) = 1"
proof -
  let ?r = "validate (runtime_at 0) sample_forbidden sample_forbidden_log (make_claim_log [])"
  have f: "status (forbidden_tools_check ?r) = FAIL"
    by (simp add: validate_def constructor_defs sample_forbidden_def
          sample_forbidden_log_def forbidden_check_status py_set_def)
  have i: "hallucinations ?r @ silent_actions ?r @ mismatches ?r
            = [silent_action_issue (make_action 1 ''run_terminal_command'' [])]"
    by (simp add: validate_def constructor_defs sample_forbidden_def
          sample_forbidden_log_def detect_hallucinations_def detect_silent_actions_def
          detect_mismatches_def silent_action_step_def claimed_tools_def py_set_def
          List.map_filter_def)
  from validate_counts_amended [of "runtime_at 0" sample_forbidden sample_forbidden_log "make_claim_log []"]
  have "critical_issues ?r = count_severity CRITICAL (hallucinations ?r @ silent_actions ?r @ mismatches ?r) + 1"
    and "medium_severity_issues ?r = count_severity MEDIUM (hallucinations ?r @ silent_actions ?r @ mismatches ?r)"
    and "total_issues ?r = int (length (hallucinations ?r @ silent_actions ?r @ mismatches ?r))"
    using f by simp_all
  then show ?thesis
    unfolding i using f by (simp add: count_severity_def silent_action_issue_def)
qed

text \<open>C2 as stated fails when a required tool is missing and nothing else happens:
  no issue is listed, so \<open>total_issues\<close> is 0, while the high count holds the penalty.\<close>

theorem validate_counts_counterexample:
  "status (required_tools_check (validate (runtime_at 0) sample_required (make_action_log []) (make_claim_log []))) = FAIL
   \<and> total_issues (validate (runtime_at 0) sample_required (make_action_log []) (make_claim_log [])) = 0
   \<and> high_severity_issues (validate (runtime_at 0) sample_required (make_action_log []) (make_claim_log [])) = 1
   \<and> total_issues (validate (runtime_at 0) sample_required (make_action_log []) (make_claim_log []))
       \<noteq> critical_issues (validate (runtime_at 0) sample_required (make_action_log []) (make_claim_log []))
         + high_severity_issues (validate (runtime_at 0) sample_required (make_action_log []) (make_claim_log []))
         + medium_severity_issues (validate (runtime_at 0) sample_required (make_action_log []) (make_claim_log []))
         + low_severity_issues (validate (runtime_at 0) sample_required (make_action_log []) (make_claim_log []))"
proof -
  have f: "status (check_required_tools (runtime_at 0) sample_required (make_action_log [])) = FAIL"
    by (simp add: required_check_status constructor_defs sample_required_def)
  have g: "status (check_forbidden_tools (runtime_at 0) sample_required (make_action_log [])) \<noteq> FAIL"
    by (simp add: forbidden_check_status constructor_defs sample_required_def)
  have i: "detect_hallucinations (make_claim_log []) (make_action_log []) = []"
    "detect_silent_actions (make_action_log []) (make_claim_log []) = []"
    by (simp_all add: constructor_defs detect_hallucinations_def detect_silent_actions_def)
  show ?thesis
    by (simp add: validate_def Let_def f g i detect_mismatches_def count_severity_def)
qed

section \<open>Determinism\<close>

subsection \<open>What a report owes to the order of the sets\<close>

lemma list_of_set_slot:
  assumes "slot rt = slot rt'"
  shows "list_of_set rt l S = list_of_set rt' l S"
  by (simp add: list_of_set_def assms)

lemma required_status_any_order:
  "status (check_required_tools rt s al) = status (check_required_tools rt' s al)"
  by (simp add: check_required_tools_def Let_def list_of_set_empty_iff)

lemma forbidden_status_any_order:
  "status (check_forbidden_tools rt s al) = status (check_forbidden_tools rt' s al)"
  by (simp add: check_forbidden_tools_def Let_def list_of_set_empty_iff)

lemma required_check_any_order:
  "same_up_to_order (check_required_tools rt s al) (check_required_tools rt' s al)"
  by (simp add: same_up_to_order_def check_required_tools_def Let_def list_of_set_empty_iff
        mset_list_of_set)

lemma forbidden_check_any_order:
  "same_up_to_order (check_forbidden_tools rt s al) (check_forbidden_tools rt' s al)"
  by (simp add: same_up_to_order_def check_forbidden_tools_def Let_def list_of_set_empty_iff
        mset_list_of_set)

lemma validate_any_order:
  "validate rt s al cl
     = (validate rt' s al cl)
         \<lparr> timestamp := clock rt,
           required_tools_check := check_required_tools rt s al,
           forbidden_tools_check := check_forbidden_tools rt s al \<rparr>"
  using required_status_any_order [of rt s al rt'] forbidden_status_any_order [of rt s al rt']
  by (simp add: validate_def Let_def determine_overall_status_def)

lemma validate_checks:
  "required_tools_check (validate rt s al cl) = check_required_tools rt s al"
  "forbidden_tools_check (validate rt s al cl) = check_forbidden_tools rt s al"
  by (simp_all add: validate_def Let_def)

lemma validate_same_order:
  assumes "slot rt = slot rt'"
  shows "validate rt s al cl = (validate rt' s al cl) \<lparr> timestamp := clock rt \<rparr>"
proof -
  have "check_required_tools rt s al = check_required_tools rt' s al"
    by (simp add: check_required_tools_def list_of_set_slot [OF assms])
  moreover have "check_forbidden_tools rt s al = check_forbidden_tools rt' s al"
    by (simp add: check_forbidden_tools_def list_of_set_slot [OF assms])
  ultimately show ?thesis by (simp add: validate_def Let_def)
qed

subsection \<open>What the scorer reads of a report\<close>

lemma score_tool_selection_reads:
  assumes "length (missing (required_tools_check r)) = length (missing (required_tools_check r'))"
    and "length (extra (forbidden_tools_check r)) = length (extra (forbidden_tools_check r'))"
  shows "score_tool_selection ar r s = score_tool_selection ar r' s"
  by (simp only: score_tool_selection_def assms)

lemma score_parameters_reads:
  assumes "parameters_check r = parameters_check r'"
  shows "score_parameters ar r = score_parameters ar r'"
  by (simp only: score_parameters_def assms)

lemma score_sequence_reads:
  assumes "sequence_check r = sequence_check r'"
  shows "score_sequence ar r s = score_sequence ar r' s"
  by (simp only: score_sequence_def assms)

lemma score_consistency_reads:
  assumes "hallucinations r = hallucinations r'" and "silent_actions r = silent_actions r'"
  shows "score_consistency ar r = score_consistency ar r'"
  by (simp only: score_consistency_def assms)

lemma score_compliance_reads:
  assumes "length (extra (forbidden_tools_check r)) = length (extra (forbidden_tools_check r'))"
  shows "score_compliance ar r = score_compliance ar r'"
  by (simp only: score_compliance_def assms)

lemma generate_explanation_reads:
  "generate_explanation subs r = generate_explanation subs r'"
  by (simp only: generate_explanation_def)

lemma calculate_score_any_order:
  "calculate_score ar (validate rt s al cl) al s = calculate_score ar (validate rt' s al cl) al s"
proof -
  let ?r = "validate rt s al cl" and ?r' = "validate rt' s al cl"
  have m: "length (missing (required_tools_check ?r)) = length (missing (required_tools_check ?r'))"
    by (simp only: missing_tools_length)
  have e: "length (extra (forbidden_tools_check ?r)) = length (extra (forbidden_tools_check ?r'))"
    by (simp only: violations_length)
  have p: "parameters_check ?r = parameters_check ?r'"
    and q: "sequence_check ?r = sequence_check ?r'"
    and h: "hallucinations ?r = hallucinations ?r'"
    and i: "silent_actions ?r = silent_actions ?r'"
    by (simp_all add: validate_def Let_def)
  show ?thesis
    unfolding calculate_score_def
      score_tool_selection_reads [OF m e, of ar s]
      score_parameters_reads [OF p, of ar]
      score_sequence_reads [OF q, of ar s]
      score_consistency_reads [OF h i, of ar]
      score_compliance_reads [OF e, of ar]
      generate_explanation_reads [of _ ?r ?r']
    by (rule refl)
qed

text \<open>
  C1 (as amended). For every scenario, action log and claim log, two runs of \<open>validate\<close>
  yield reports that agree in every field except \<open>timestamp\<close>, which holds the reading
  of the clock at each run, and except the order of the tools in the lists \<open>expected\<close>,
  \<open>actual\<close>, \<open>missing\<close> and \<open>extra\<close> of the required-tools and forbidden-tools checks,
  which is the iteration order of a set (it varies with the hash seed of the process and
  with the way the set was built): the two checks agree in name, status and details and
  list the same tools. When the sets iterate in the same order in both runs, the reports
  agree in every field except \<open>timestamp\<close>. \<open>calculate_score\<close> reads neither the
  timestamp nor the order of a list, so the two scores agree in every field, whatever
  the float arithmetic.
\<close>

theorem validate_deterministic_up_to_timestamp_and_order:
  "validate rt1 s al cl
     = (validate rt2 s al cl)
         \<lparr> timestamp := clock rt1,
           required_tools_check := required_tools_check (validate rt1 s al cl),
           forbidden_tools_check := forbidden_tools_check (validate rt1 s al cl) \<rparr>
   \<and> same_up_to_order (required_tools_check (validate rt1 s al cl))
                       (required_tools_check (validate rt2 s al cl))
   \<and> same_up_to_order (forbidden_tools_check (validate rt1 s al cl))
                       (forbidden_tools_check (validate rt2 s al cl))
   \<and> (slot rt1 = slot rt2
        \<longrightarrow> validate rt1 s al cl = (validate rt2 s al cl) \<lparr> timestamp := clock rt1 \<rparr>)
   \<and> calculate_score ar (validate rt1 s al cl) al s
       = calculate_score ar (validate rt2 s al cl) al s"
proof (intro conjI impI)
  show "validate rt1 s al cl
     = (validate rt2 s al cl)
         \<lparr> timestamp := clock rt1,
           required_tools_check := required_tools_check (validate rt1 s al cl),
           forbidden_tools_check := forbidden_tools_check (validate rt1 s al cl) \<rparr>"
    unfolding validate_checks by (rule validate_any_order)
  show "same_up_to_order (required_tools_check (validate rt1 s al cl))
                       (required_tools_check (validate rt2 s al cl))"
    unfolding validate_checks by (rule required_check_any_order)
  show "same_up_to_order (forbidden_tools_check (validate rt1 s al cl))
                       (forbidden_tools_check (validate rt2 s al cl))"
    unfolding validate_checks by (rule forbidden_check_any_order)
  show "calculate_score ar (validate rt1 s al cl) al s
       = calculate_score ar (validate rt2 s al cl) al s"
    by (rule calculate_score_any_order)
next
  assume "slot rt1 = slot rt2"
  then show "validate rt1 s al cl = (validate rt2 s al cl) \<lparr> timestamp := clock rt1 \<rparr>"
    by (rule validate_same_order)
qed

text \<open>Two required tools, nothing called: the same order at two clock readings, and two
  orders of the missing tools.\<close>

theorem validate_deterministic_up_to_timestamp_and_order_witness:
  "slot (runtime_at 0) = slot (runtime_at 1)
   \<and> validate (runtime_at 0) sample_two_tools (make_action_log []) (make_claim_log [])
       = (validate (runtime_at 1) sample_two_tools (make_action_log []) (make_claim_log []))
           \<lparr> timestamp := clock (runtime_at 0) \<rparr>
   \<and> same_up_to_order
         (required_tools_check (validate (runtime_at 0) sample_two_tools (make_action_log [])
            (make_claim_log [])))
         (required_tools_check (validate sample_other_order sample_two_tools (make_action_log [])
            (make_claim_log [])))
   \<and> calculate_score binary64
         (validate (runtime_at 0) sample_two_tools (make_action_log []) (make_claim_log []))
         (make_action_log []) sample_two_tools
       = calculate_score binary64
         (validate sample_other_order sample_two_tools (make_action_log []) (make_claim_log []))
         (make_action_log []) sample_two_tools"
proof -
  have h: "slot (runtime_at 0) = slot (runtime_at 1)"
    by (simp add: runtime_at_def)
  from validate_deterministic_up_to_timestamp_and_order
         [of "runtime_at 0" sample_two_tools "make_action_log []" "make_claim_log []"
             "runtime_at 1" binary64] h
  have a: "validate (runtime_at 0) sample_two_tools (make_action_log []) (make_claim_log [])
       = (validate (runtime_at 1) sample_two_tools (make_action_log []) (make_claim_log []))
           \<lparr> timestamp := clock (runtime_at 0) \<rparr>"
    by blast
  from validate_deterministic_up_to_timestamp_and_order
         [of "runtime_at 0" sample_two_tools "make_action_log []" "make_claim_log []"
             sample_other_order binary64]
  have b: "same_up_to_order
         (required_tools_check (validate (runtime_at 0) sample_two_tools (make_action_log [])
            (make_claim_log [])))
         (required_tools_check (validate sample_other_order sample_two_tools (make_action_log [])
            (make_claim_log [])))"
    and c: "calculate_score binary64
         (validate (runtime_at 0) sample_two_tools (make_action_log []) (make_claim_log []))
         (make_action_log []) sample_two_tools
       = calculate_score binary64
         (validate sample_other_order sample_two_tools (make_action_log []) (make_claim_log []))
         (make_action_log []) sample_two_tools"
    by blast+
  from h a b c show ?thesis by (intro conjI)
qed

lemma sample_missing_orders:
  "missing (required_tools_check (validate (runtime_at 0) sample_two_tools (make_action_log [])
      (make_claim_log []))) = [''edit_file'', ''read_file'']"
  "missing (required_tools_check (validate sample_other_order sample_two_tools (make_action_log [])
      (make_claim_log []))) = [''read_file'', ''edit_file'']"
proof -
  have s: "sorted_list_of_fset {|''read_file'', ''edit_file''|} = [''edit_file'', ''read_file'']"
    by code_simp
  show "missing (required_tools_check (validate (runtime_at 0) sample_two_tools (make_action_log [])
      (make_claim_log []))) = [''edit_file'', ''read_file'']"
    by (simp add: validate_checks check_required_tools_def list_of_set_def constructor_defs
          sample_two_tools_def runtime_at_def s)
  show "missing (required_tools_check (validate sample_other_order sample_two_tools (make_action_log [])
      (make_claim_log []))) = [''read_file'', ''edit_file'']"
    by (simp add: validate_checks check_required_tools_def list_of_set_def constructor_defs
          sample_two_tools_def sample_other_order_def s)
qed

text \<open>C1 as stated fails on the timestamp (two runs at different clock readings) and
  on the order of the missing tools (two runs whose sets iterate differently).\<close>

theorem validate_timestamp_counterexample:
  "validate (runtime_at 0) sample_two_tools (make_action_log []) (make_claim_log [])
     \<noteq> validate (runtime_at 1) sample_two_tools (make_action_log []) (make_claim_log [])
   \<and> clock (runtime_at 0) = clock sample_other_order
   \<and> missing (required_tools_check (validate (runtime_at 0) sample_two_tools
         (make_action_log []) (make_claim_log []))) = [''edit_file'', ''read_file'']
   \<and> missing (required_tools_check (validate sample_other_order sample_two_tools
         (make_action_log []) (make_claim_log []))) = [''read_file'', ''edit_file'']
   \<and> validate (runtime_at 0) sample_two_tools (make_action_log []) (make_claim_log [])
     \<noteq> validate sample_other_order sample_two_tools (make_action_log []) (make_claim_log [])"
proof (intro conjI)
  show "validate (runtime_at 0) sample_two_tools (make_action_log []) (make_claim_log [])
     \<noteq> validate (runtime_at 1) sample_two_tools (make_action_log []) (make_claim_log [])"
  proof
    assume "validate (runtime_at 0) sample_two_tools (make_action_log []) (make_claim_log [])
              = validate (runtime_at 1) sample_two_tools (make_action_log []) (make_claim_log [])"
    then have "timestamp (validate (runtime_at 0) sample_two_tools (make_action_log []) (make_claim_log []))
                = timestamp (validate (runtime_at 1) sample_two_tools (make_action_log []) (make_claim_log []))"
      by simp
    then show False by (simp add: validate_def Let_def runtime_at_def)
  qed
  show "clock (runtime_at 0) = clock sample_other_order"
    by (simp add: runtime_at_def sample_other_order_def)
  show "missing (required_tools_check (validate (runtime_at 0) sample_two_tools
         (make_action_log []) (make_claim_log []))) = [''edit_file'', ''read_file'']"
    by (rule sample_missing_orders)
  show "missing (required_tools_check (validate sample_other_order sample_two_tools
         (make_action_log []) (make_claim_log []))) = [''read_file'', ''edit_file'']"
    by (rule sample_missing_orders)
  show "validate (runtime_at 0) sample_two_tools (make_action_log []) (make_claim_log [])
     \<noteq> validate sample_other_order sample_two_tools (make_action_log []) (make_claim_log [])"
  proof
    assume "validate (runtime_at 0) sample_two_tools (make_action_log []) (make_claim_log [])
     = validate sample_other_order sample_two_tools (make_action_log []) (make_claim_log [])"
    then have "missing (required_tools_check (validate (runtime_at 0) sample_two_tools
         (make_action_log []) (make_claim_log [])))
       = missing (required_tools_check (validate sample_other_order sample_two_tools
         (make_action_log []) (make_claim_log [])))"
      by simp
    then show False by (simp add: sample_missing_orders)
  qed
qed

section \<open>Total score\<close>

lemma make_float_subscore_fields:
  "score (make_float_subscore ar c sc e) = sc"
  "weight (make_float_subscore ar c sc e) = criteria_weight c"
  "weighted_score (make_float_subscore ar c sc e) = rnd ar (rnd ar (sc / 10) * criteria_weight c)"
  by (simp_all add: make_float_subscore_def)

lemma criteria_weights:
  "criteria_weight (criteria_at ''tool_selection'') = 2.5"
  "criteria_weight (criteria_at ''parameters'') = 1.5"
  "criteria_weight (criteria_at ''sequence'') = 1.5"
  "criteria_weight (criteria_at ''consistency'') = 2.5"
  "criteria_weight (criteria_at ''compliance'') = 1"
  "criteria_weight (criteria_at ''efficiency'') = 1"
  by (simp_all add: criteria_at_def CRITERIA_def)

lemma score_tool_selection_weighted:
  "weight (score_tool_selection ar vr s) = 2.5
   \<and> weighted_score (score_tool_selection ar vr s)
       = rnd ar (rnd ar (score (score_tool_selection ar vr s) / 10)
                  * weight (score_tool_selection ar vr s))"
  unfolding score_tool_selection_def Let_def
  by (simp only: make_float_subscore_fields criteria_weights)

lemma score_parameters_weighted:
  "weight (score_parameters ar vr) = 1.5
   \<and> weighted_score (score_parameters ar vr)
       = rnd ar (rnd ar (score (score_parameters ar vr) / 10) * weight (score_parameters ar vr))"
  unfolding score_parameters_def Let_def
  by (simp only: make_float_subscore_fields criteria_weights)

lemma score_sequence_weighted:
  "weight (score_sequence ar vr s) = 1.5
   \<and> weighted_score (score_sequence ar vr s)
       = rnd ar (rnd ar (score (score_sequence ar vr s) / 10) * weight (score_sequence ar vr s))"
  unfolding score_sequence_def Let_def
  by (simp only: make_float_subscore_fields criteria_weights)

lemma score_consistency_weighted:
  "weight (score_consistency ar vr) = 2.5
   \<and> weighted_score (score_consistency ar vr)
       = rnd ar (rnd ar (score (score_consistency ar vr) / 10) * weight (score_consistency ar vr))"
  unfolding score_consistency_def Let_def
  by (simp only: make_float_subscore_fields criteria_weights)

lemma score_compliance_weighted:
  "weight (score_compliance ar vr) = 1
   \<and> weighted_score (score_compliance ar vr)
       = rnd ar (rnd ar (score (score_compliance ar vr) / 10) * weight (score_compliance ar vr))"
  unfolding score_compliance_def Let_def
  by (simp only: make_float_subscore_fields criteria_weights)

lemma score_efficiency_float_weighted:
  "weight (score_efficiency_float ar al s) = 1
   \<and> weighted_score (score_efficiency_float ar al s)
       = rnd ar (rnd ar (score (score_efficiency_float ar al s) / 10)
                  * weight (score_efficiency_float ar al s))"
  unfolding score_efficiency_float_def Let_def
  by (simp only: make_float_subscore_fields criteria_weights)

lemma score_efficiency_float_exact:
  "score_efficiency_float exact_reals al s = score_efficiency al s"
  by (simp add: score_efficiency_float_def score_efficiency_def make_float_subscore_def
        make_subscore_def exact_reals_def Let_def)

lemma calculate_score_subscores:
  "subscores (calculate_score ar vr al s) =
     [(''tool_selection'', score_tool_selection ar vr s),
      (''parameters'', score_parameters ar vr),
      (''sequence'', score_sequence ar vr s),
      (''consistency'', score_consistency ar vr),
      (''compliance'', score_compliance ar vr),
      (''efficiency'', score_efficiency_float ar al s)]"
  by (simp add: calculate_score_def Let_def)

lemma calculate_score_total:
  "total (calculate_score ar vr al s)
     = py_round2 ar (fsum ar (map (\<lambda>kv. weighted_score (snd kv))
                                  (subscores (calculate_score ar vr al s))))"
  by (simp add: calculate_score_def Let_def)

lemma calculate_score_percentile:
  "percentile (calculate_score ar vr al s)
     = py_round2 ar (rnd ar (fsum ar (map (\<lambda>kv. weighted_score (snd kv))
                                          (subscores (calculate_score ar vr al s))) * 10))"
  by (simp add: calculate_score_def Let_def)

text \<open>The ratio in the explanation of an inefficient run, and the two examples of the
  specification for the efficiency subscore, in binary64: with two required tools, two
  calls score 10 and four calls score 0.\<close>

lemma format_1f_examples:
  "format_1f (37 / 20) = ''1.9''"
  "format_1f (5 / 3) = ''1.7''"
  "format_1f 2 = ''2.0''"
  by code_simp+

lemma sample_efficiency_examples:
  "score (score_efficiency_float binary64 (sample_calls 2) sample_two_tools) = 10"
  "score (score_efficiency_float binary64 (sample_calls 4) sample_two_tools) = 0"
  by code_simp+

text \<open>
  C4 (as amended). For every score produced by \<open>calculate_score\<close>, in whatever float
  arithmetic the interpreter has: \<open>total\<close> is \<open>round(x, 2)\<close> of the sum \<open>x\<close> that the
  built-in \<open>sum\<close> returns on the six subscores' weighted scores; each weighted score is
  the float product of the float quotient (raw score / 10) with the fixed weight of its
  criterion (2.5, 1.5, 1.5, 2.5, 1, 1, in the order of the criteria); and \<open>percentile\<close>
  is \<open>round(x * 10, 2)\<close> for the same unrounded sum \<open>x\<close>, which need not be ten times
  \<open>total\<close>.
\<close>

theorem calculate_score_amended:
  "total (calculate_score ar vr al s)
     = py_round2 ar (fsum ar (map (\<lambda>kv. weighted_score (snd kv))
                                  (subscores (calculate_score ar vr al s))))
   \<and> map fst (subscores (calculate_score ar vr al s))
       = [''tool_selection'', ''parameters'', ''sequence'', ''consistency'', ''compliance'',
          ''efficiency'']
   \<and> map (\<lambda>kv. weight (snd kv)) (subscores (calculate_score ar vr al s))
       = [2.5, 1.5, 1.5, 2.5, 1, 1]
   \<and> list_all (\<lambda>kv. weighted_score (snd kv)
                       = rnd ar (rnd ar (score (snd kv) / 10) * weight (snd kv)))
        (subscores (calculate_score ar vr al s))
   \<and> percentile (calculate_score ar vr al s)
       = py_round2 ar (rnd ar (fsum ar (map (\<lambda>kv. weighted_score (snd kv))
                                            (subscores (calculate_score ar vr al s))) * 10))"
proof (intro conjI)
  show "total (calculate_score ar vr al s)
     = py_round2 ar (fsum ar (map (\<lambda>kv. weighted_score (snd kv))
                                  (subscores (calculate_score ar vr al s))))"
    by (rule calculate_score_total)
  show "map fst (subscores (calculate_score ar vr al s))
       = [''tool_selection'', ''parameters'', ''sequence'', ''consistency'', ''compliance'',
          ''efficiency'']"
    by (simp add: calculate_score_subscores)
  show "map (\<lambda>kv. weight (snd kv)) (subscores (calculate_score ar vr al s))
       = [2.5, 1.5, 1.5, 2.5, 1, 1]"
    by (simp add: calculate_score_subscores score_tool_selection_weighted
          score_parameters_weighted score_sequence_weighted score_consistency_weighted
          score_compliance_weighted score_efficiency_float_weighted)
  show "list_all (\<lambda>kv. weighted_score (snd kv)
                       = rnd ar (rnd ar (score (snd kv) / 10) * weight (snd kv)))
        (subscores (calculate_score ar vr al s))"
    using score_tool_selection_weighted [of ar vr s] score_parameters_weighted [of ar vr]
      score_sequence_weighted [of ar vr s] score_consistency_weighted [of ar vr]
      score_compliance_weighted [of ar vr] score_efficiency_float_weighted [of ar al s]
    by (simp add: calculate_score_subscores)
  show "percentile (calculate_score ar vr al s)
       = py_round2 ar (rnd ar (fsum ar (map (\<lambda>kv. weighted_score (snd kv))
                                            (subscores (calculate_score ar vr al s))) * 10))"
    by (rule calculate_score_percentile)
qed

lemma sample_eight_sum:
  "fsum binary64 (map (\<lambda>kv. weighted_score (snd kv))
       (subscores (calculate_score binary64 sample_eight_report sample_thirteen_calls
          sample_eight_tools)))
     = 2512164167142605 / 281474976710656"
  by code_simp

lemma sample_eight_roundings:
  "py_round2 binary64 (2512164167142605 / 281474976710656) = round_binary64 (893 / 100)"
  "py_round2 binary64 (rnd binary64 (2512164167142605 / 281474976710656 * 10))
     = round_binary64 (8925 / 100)"
  by code_simp+

text \<open>Eight required tools, thirteen calls, one parameter error, in binary64: the sum
  is the float nearest 8.925, which lies above 8.925, and \<open>total\<close> is 8.93.\<close>

theorem calculate_score_amended_witness:
  "total (calculate_score binary64 sample_eight_report sample_thirteen_calls sample_eight_tools)
     = round_binary64 (893 / 100)
   \<and> percentile (calculate_score binary64 sample_eight_report sample_thirteen_calls
        sample_eight_tools)
     = round_binary64 (8925 / 100)"
proof -
  let ?sc = "calculate_score binary64 sample_eight_report sample_thirteen_calls sample_eight_tools"
  from calculate_score_amended [of binary64 sample_eight_report sample_thirteen_calls
         sample_eight_tools]
  have "total ?sc
          = py_round2 binary64 (fsum binary64 (map (\<lambda>kv. weighted_score (snd kv)) (subscores ?sc)))"
    and "percentile ?sc
           = py_round2 binary64
               (rnd binary64 (fsum binary64 (map (\<lambda>kv. weighted_score (snd kv)) (subscores ?sc))
                                * 10))"
    by blast+
  then show ?thesis
    unfolding sample_eight_sum sample_eight_roundings by (intro conjI)
qed

lemma sample_three_totals:
  "total (calculate_score binary64 sample_report sample_five_calls sample_three_tools)
     = 5252323065420841 / 562949953421312"
  "percentile (calculate_score binary64 sample_report sample_five_calls sample_three_tools)
     = 6567514894101381 / 70368744177664"
  by code_simp+

lemma sample_floats:
  "round_binary64 (933 / 100) = 5252323065420841 / 562949953421312"
  "round_binary64 (9333 / 100) = 6567514894101381 / 70368744177664"
  "round_binary64 (26261615327104205 / 281474976710656) = 6565403831776051 / 70368744177664"
  by code_simp+

text \<open>C4 as stated fails on the percentile. Three required tools, five calls, every
  call claimed, in binary64: \<open>total\<close> is 9.33 and \<open>percentile\<close> is 93.33, which is
  neither the real nor the float product of \<open>total\<close> and 10.\<close>

theorem calculate_score_percentile_counterexample:
  "total (calculate_score binary64 sample_report sample_five_calls sample_three_tools)
     = round_binary64 (933 / 100)
   \<and> percentile (calculate_score binary64 sample_report sample_five_calls sample_three_tools)
       = round_binary64 (9333 / 100)
   \<and> percentile (calculate_score binary64 sample_report sample_five_calls sample_three_tools)
       \<noteq> total (calculate_score binary64 sample_report sample_five_calls sample_three_tools) * 10
   \<and> percentile (calculate_score binary64 sample_report sample_five_calls sample_three_tools)
       \<noteq> rnd binary64
           (total (calculate_score binary64 sample_report sample_five_calls sample_three_tools)
              * 10)"
  unfolding sample_three_totals
  by (simp add: sample_floats binary64_def)

end
